theory Spec2Isabelle
  imports Main "HOL-Library.AList"
begin

section \<open>Message protocol (shared/src/protocol/types.ts)\<close>

text \<open>
  JavaScript values as far as the transport looks at them: \<open>undefined\<close>, \<open>null\<close>,
  booleans, numbers (integers stand for them here: no operation of the transport
  computes with a body), strings, arrays and plain objects.
\<close>

datatype jsval =
    JUndefined
  | JNull
  | JBool bool
  | JNum int
  | JStr string
  | JArr "jsval list"
  | JObj "(string \<times> jsval) list"

text \<open>The result of JavaScript's \<open>typeof\<close>.\<close>

fun typeof :: "jsval \<Rightarrow> string" where
  "typeof JUndefined = ''undefined''"
| "typeof JNull = ''object''"
| "typeof (JBool b) = ''boolean''"
| "typeof (JNum n) = ''number''"
| "typeof (JStr s) = ''string''"
| "typeof (JArr xs) = ''object''"
| "typeof (JObj kvs) = ''object''"

datatype message_type = TRequest | TResponse | TError

text \<open>
  \<open>MessageProtocol\<close>: every optional field is an option, \<open>None\<close> when the property
  is absent; the body is any value, \<open>JUndefined\<close> when absent.
\<close>

record message =
  m_id :: string
  m_type :: message_type
  m_method :: "string option"
  m_url :: "string option"
  m_headers :: "(string \<times> string) list option"
  m_body :: jsval
  m_status :: "int option"
  m_error :: "string option"
  m_stack :: "string option"
  m_instanceId :: "string option"
  m_timestamp :: int

definition isRequestMessage :: "message \<Rightarrow> bool" where
  "isRequestMessage message \<longleftrightarrow>
     m_type message = TRequest \<and> m_method message \<noteq> None \<and> m_url message \<noteq> None"

definition isResponseMessage :: "message \<Rightarrow> bool" where
  "isResponseMessage message \<longleftrightarrow> m_type message = TResponse \<and> m_status message \<noteq> None"

definition isErrorMessage :: "message \<Rightarrow> bool" where
  "isErrorMessage message \<longleftrightarrow>
     m_type message = TError \<and> m_error message \<noteq> None \<and> m_status message \<noteq> None"

text \<open>
  The object literal \<open>{ id, type: 'error', error, status, timestamp: Date.now() }\<close>
  that the correlation manager builds in four places.
\<close>

definition error_literal :: "string \<Rightarrow> string \<Rightarrow> int \<Rightarrow> int \<Rightarrow> message" where
  "error_literal i e st now =
     \<lparr> m_id = i, m_type = TError, m_method = None, m_url = None, m_headers = None,
       m_body = JUndefined, m_status = Some st, m_error = Some e, m_stack = None,
       m_instanceId = None, m_timestamp = now \<rparr>"

section \<open>Correlation manager (shared/src/utils/correlation.ts)\<close>

text \<open>
  A callback is a closure of the caller; the manager only ever calls it, so it is a
  handle here. A timer handle is what \<open>setTimeout\<close> returns; every handle is truthy.
\<close>

type_synonym callback = nat
type_synonym timer = nat

record PendingRequest =
  p_id :: string
  p_timestamp :: int
  p_resolve :: callback
  p_reject :: callback
  p_timeout :: "timer option"

text \<open>A call of a callback with its argument, as queued by \<open>process.nextTick\<close> or made at once.\<close>

datatype call = CallResolve callback message | CallReject callback message

text \<open>
  The manager with the part of the runtime it acts on. \<open>pendingRequests\<close> is the
  \<open>Map\<close>, in insertion order. \<open>timers\<close> are the timeouts set and not yet fired or
  cleared, each with the correlation id its closure holds and its delay;
  \<open>nextTimer\<close> is the next handle \<open>setTimeout\<close> gives out. \<open>tickQueue\<close> holds the
  closures handed to \<open>process.nextTick\<close> that have not run yet, and \<open>invoked\<close> is the
  log of the callback calls made so far.
\<close>

record manager =
  pendingRequests :: "(string \<times> PendingRequest) list"
  defaultTimeout :: int
  disposed :: bool
  timers :: "(timer \<times> string \<times> int) list"
  nextTimer :: timer
  tickQueue :: "call list"
  invoked :: "call list"

definition new_manager :: "int option \<Rightarrow> manager" where
  "new_manager d =
     \<lparr> pendingRequests = [], defaultTimeout = (case d of None \<Rightarrow> 30000 | Some t \<Rightarrow> t),
       disposed = False, timers = [], nextTimer = 1, tickQueue = [], invoked = [] \<rparr>"

definition setTimeout :: "string \<Rightarrow> int \<Rightarrow> manager \<Rightarrow> timer \<times> manager" where
  "setTimeout i ms m =
     (nextTimer m,
      m\<lparr> timers := timers m @ [(nextTimer m, i, ms)], nextTimer := Suc (nextTimer m) \<rparr>)"

definition clearTimeout :: "timer \<Rightarrow> manager \<Rightarrow> manager" where
  "clearTimeout h m = m\<lparr> timers := AList.delete h (timers m) \<rparr>"

definition nextTick :: "call \<Rightarrow> manager \<Rightarrow> manager" where
  "nextTick c m = m\<lparr> tickQueue := tickQueue m @ [c] \<rparr>"

text \<open>
  The queued closures run: each calls its callback inside \<open>try\<close>/\<open>catch\<close>, so
  whatever the callback throws is logged and dropped.
\<close>

definition run_ticks :: "manager \<Rightarrow> manager" where
  "run_ticks m = m\<lparr> invoked := invoked m @ tickQueue m, tickQueue := [] \<rparr>"

definition addPendingRequest ::
  "string \<Rightarrow> callback \<Rightarrow> callback \<Rightarrow> int option \<Rightarrow> int \<Rightarrow> manager \<Rightarrow> manager" where
  "addPendingRequest i resolve reject timeout now m =
     (if disposed m then
        m\<lparr> invoked := invoked m @
            [CallReject reject
               (error_literal i ''Correlation manager has been disposed'' 503 now)] \<rparr>
      else
        let request = \<lparr> p_id = i, p_timestamp = now, p_resolve = resolve,
                        p_reject = reject, p_timeout = None \<rparr>;
            timeoutMs = (case timeout of None \<Rightarrow> defaultTimeout m | Some t \<Rightarrow> t)
        in if timeoutMs > 0 then
             let (h, m1) = setTimeout i timeoutMs m
             in m1\<lparr> pendingRequests :=
                       AList.update i (request\<lparr> p_timeout := Some h \<rparr>) (pendingRequests m1) \<rparr>
           else m\<lparr> pendingRequests := AList.update i request (pendingRequests m) \<rparr>)"

definition clearRequest :: "string \<Rightarrow> manager \<Rightarrow> manager" where
  "clearRequest i m =
     (let m1 = (case map_of (pendingRequests m) i of
                  None \<Rightarrow> m
                | Some request \<Rightarrow>
                    (case p_timeout request of None \<Rightarrow> m | Some h \<Rightarrow> clearTimeout h m))
      in m1\<lparr> pendingRequests := AList.delete i (pendingRequests m1) \<rparr>)"

definition resolveRequest :: "string \<Rightarrow> message \<Rightarrow> manager \<Rightarrow> bool \<times> manager" where
  "resolveRequest i response m =
     (if disposed m then (False, m)
      else case map_of (pendingRequests m) i of
             None \<Rightarrow> (False, m)
           | Some request \<Rightarrow>
               (True, nextTick (CallResolve (p_resolve request) response) (clearRequest i m)))"

definition rejectRequest :: "string \<Rightarrow> message \<Rightarrow> manager \<Rightarrow> bool \<times> manager" where
  "rejectRequest i err m =
     (if disposed m then (False, m)
      else case map_of (pendingRequests m) i of
             None \<Rightarrow> (False, m)
           | Some request \<Rightarrow>
               (True, nextTick (CallReject (p_reject request) err) (clearRequest i m)))"

text \<open>
  A timeout set by \<open>addPendingRequest\<close> fires: its closure rejects the id it holds
  with the \<open>Request timeout\<close> error and drops the boolean. A handle that is not
  active (cleared, or fired before) does nothing.
\<close>

definition fire_timer :: "timer \<Rightarrow> int \<Rightarrow> manager \<Rightarrow> manager" where
  "fire_timer h now m =
     (case map_of (timers m) h of
        None \<Rightarrow> m
      | Some (i, ms) \<Rightarrow>
          snd (rejectRequest i (error_literal i ''Request timeout'' 408 now)
                 (m\<lparr> timers := AList.delete h (timers m) \<rparr>)))"

text \<open>
  \<open>clearAllRequests\<close> builds one error object, and the loop writes each id into it
  before queueing the closure that passes it on. The closures run after the loop,
  so every one of them passes the same object, holding the id written last.
\<close>

fun reject_each :: "(string \<times> PendingRequest) list \<Rightarrow> message \<Rightarrow> manager \<Rightarrow> manager" where
  "reject_each [] err m = m"
| "reject_each ((i, request) # rest) err m =
     reject_each rest err
       (nextTick (CallReject (p_reject request) err)
          (case p_timeout request of None \<Rightarrow> m | Some h \<Rightarrow> clearTimeout h m))"

definition clearAllRequests :: "int \<Rightarrow> manager \<Rightarrow> manager" where
  "clearAllRequests now m =
     (if disposed m then m
      else
        let requestsCopy = pendingRequests m;
            err = error_literal (if requestsCopy = [] then [] else fst (last requestsCopy))
                    ''Connection closed'' 503 now
        in reject_each requestsCopy err (m\<lparr> disposed := True, pendingRequests := [] \<rparr>))"

definition getPendingCount :: "manager \<Rightarrow> nat" where
  "getPendingCount m = (if disposed m then 0 else length (pendingRequests m))"

definition isDisposed :: "manager \<Rightarrow> bool" where
  "isDisposed m = disposed m"

fun reject_expired :: "string list \<Rightarrow> int \<Rightarrow> nat \<Rightarrow> manager \<Rightarrow> nat \<times> manager" where
  "reject_expired [] now cleaned m = (cleaned, m)"
| "reject_expired (i # ids) now cleaned m =
     (case rejectRequest i (error_literal i ''Request expired'' 408 now) m of
        (wasRejected, m') \<Rightarrow>
          reject_expired ids now (if wasRejected then Suc cleaned else cleaned) m')"

definition cleanupExpiredRequests :: "int option \<Rightarrow> int \<Rightarrow> manager \<Rightarrow> nat \<times> manager" where
  "cleanupExpiredRequests maxAge now m =
     (if disposed m then (0, m)
      else
        let age = (case maxAge of None \<Rightarrow> 60000 | Some a \<Rightarrow> a);
            expiredIds = map fst (filter (\<lambda>(i, request). now - p_timestamp request > age)
                                    (pendingRequests m))
        in reject_expired expiredIds now 0 m)"

text \<open>The states a manager can be in: built by the constructor, then used through its methods.\<close>

inductive mgr_reachable :: "manager \<Rightarrow> bool" where
  r_new: "mgr_reachable (new_manager d)"
| r_add: "mgr_reachable m \<Longrightarrow> mgr_reachable (addPendingRequest i res rej t now m)"
| r_resolve: "mgr_reachable m \<Longrightarrow> mgr_reachable (snd (resolveRequest i response m))"
| r_reject: "mgr_reachable m \<Longrightarrow> mgr_reachable (snd (rejectRequest i err m))"
| r_fire: "mgr_reachable m \<Longrightarrow> mgr_reachable (fire_timer h now m)"
| r_clear: "mgr_reachable m \<Longrightarrow> mgr_reachable (clearAllRequests now m)"
| r_cleanup: "mgr_reachable m \<Longrightarrow> mgr_reachable (snd (cleanupExpiredRequests a now m))"
| r_ticks: "mgr_reachable m \<Longrightarrow> mgr_reachable (run_ticks m)"

text \<open>
  Two facts about every reachable manager: once disposed its table is empty, and
  every active timer carries a handle below the next one to be given out.
\<close>

definition mgr_inv :: "manager \<Rightarrow> bool" where
  "mgr_inv m \<longleftrightarrow> (disposed m \<longrightarrow> pendingRequests m = [])"




section \<open>Emulated response object (server/src/transport/vscode-transport-server.ts)\<close>

text \<open>
  What the language supplies and the transport only calls: \<open>JSON.parse\<close> on a string
  (\<open>None\<close> when it throws), \<open>JSON.stringify\<close>, and the conversion to a string that
  \<open>Array.prototype.join\<close> and \<open>JSON.parse\<close> apply to a value that is not a string.
\<close>

record builtins =
  JSON_parse :: "string \<Rightarrow> jsval option"
  JSON_stringify :: "jsval \<Rightarrow> string"
  ToString :: "jsval \<Rightarrow> string"

text \<open>\<open>Set.prototype.add\<close> on a set kept in insertion order.\<close>

definition Set_add :: "'a \<Rightarrow> 'a list \<Rightarrow> 'a list" where
  "Set_add x xs = (if x \<in> set xs then xs else xs @ [x])"

text \<open>\<open>String.prototype.toLowerCase\<close> on the ASCII letters.\<close>

definition lower_char :: "char \<Rightarrow> char" where
  "lower_char c =
     (case map_of (zip ''ABCDEFGHIJKLMNOPQRSTUVWXYZ'' ''abcdefghijklmnopqrstuvwxyz'') c of
        Some l \<Rightarrow> l
      | None \<Rightarrow> c)"

definition toLowerCase :: "string \<Rightarrow> string" where
  "toLowerCase s = map lower_char s"

definition startsWith :: "string \<Rightarrow> string \<Rightarrow> bool" where
  "startsWith s p \<longleftrightarrow> take (length p) s = p"

text \<open>
  The webview is the channel. \<open>postMessage\<close> appends to what was posted, and throws
  once the webview has been disposed by the host.
\<close>

record webview =
  wv_disposed :: bool
  posted :: "message list"

definition postMessage :: "message \<Rightarrow> webview \<Rightarrow> string + webview" where
  "postMessage message w =
     (if wv_disposed w then Inl ''Webview is disposed''
      else Inr (w\<lparr> posted := posted w @ [message] \<rparr>))"

text \<open>What a function threw: an \<open>Error\<close> with its message, or another value.\<close>

datatype thrown = ErrorObject string | OtherValue

text \<open>
  Listeners of the \<open>EventEmitter\<close> base class: the event, whether registered with
  \<open>once\<close>, and the function. \<open>Untrack\<close> is the closure a transport server
  registers to drop a finished response from its in-flight set, with the reference
  of that server; it cannot throw. Any other listener belongs to the framework and
  comes with what it does when called: return (\<open>None\<close>) or throw.
\<close>

datatype listener = Untrack nat | Foreign nat "thrown option"

type_synonym listeners = "(string \<times> bool \<times> listener) list"

definition listener_outcome :: "listener \<Rightarrow> thrown option" where
  "listener_outcome f = (case f of Untrack s \<Rightarrow> None | Foreign n t \<Rightarrow> t)"

text \<open>
  \<open>emit(ev)\<close> calls the listeners of the event in the order they were registered. A
  listener registered with \<open>once\<close> is removed before it is called. When a listener
  throws, \<open>emit\<close> throws what it threw and the listeners after it are neither
  called nor removed. The result is the listeners called, the listeners that
  remain, and what was thrown.
\<close>

fun emit :: "string \<Rightarrow> listeners \<Rightarrow> listener list \<times> listeners \<times> thrown option" where
  "emit ev [] = ([], [], None)"
| "emit ev ((e, single, f) # ls) =
     (if e \<noteq> ev then
        (case emit ev ls of (called, rest, t) \<Rightarrow> (called, (e, single, f) # rest, t))
      else
        (case listener_outcome f of
           Some x \<Rightarrow> ([f], (if single then ls else (e, single, f) # ls), Some x)
         | None \<Rightarrow>
             (case emit ev ls of
                (called, rest, t) \<Rightarrow>
                  (f # called, (if single then rest else (e, single, f) # rest), t))))"

text \<open>No listener of the event throws.\<close>

definition listeners_return :: "string \<Rightarrow> listeners \<Rightarrow> bool" where
  "listeners_return ev ls \<longleftrightarrow>
     list_all (\<lambda>(e, single, f). e = ev \<longrightarrow> listener_outcome f = None) ls"

text \<open>
  The server-side class \<open>VSCodeHttpResponse\<close>. \<open>res_emitted\<close> logs each \<open>emit\<close>
  with the listeners it called, a throwing one included.
\<close>

record server_response =
  statusCode :: int
  statusMessage :: string
  headers :: "(string \<times> string) list"
  headersSent :: bool
  finished :: bool
  res_body :: "jsval list"
  res_correlationId :: string
  res_disposed :: bool
  res_responseSent :: bool
  res_instanceId :: string
  res_listeners :: listeners
  res_emitted :: "(string \<times> listener list) list"

definition new_response :: "string \<Rightarrow> string \<Rightarrow> server_response" where
  "new_response correlationId instanceId =
     \<lparr> statusCode = 200, statusMessage = ''OK'', headers = [], headersSent = False,
       finished = False, res_body = [], res_correlationId = correlationId,
       res_disposed = False, res_responseSent = False, res_instanceId = instanceId,
       res_listeners = [], res_emitted = [] \<rparr>"

definition setHeader :: "string \<Rightarrow> string \<Rightarrow> server_response \<Rightarrow> server_response" where
  "setHeader name v r =
     (if headersSent r \<or> res_disposed r then r
      else r\<lparr> headers := AList.update (toLowerCase name) v (headers r) \<rparr>)"

definition getHeader :: "string \<Rightarrow> server_response \<Rightarrow> string option" where
  "getHeader name r = map_of (headers r) (toLowerCase name)"

definition getHeaders :: "server_response \<Rightarrow> (string \<times> string) list" where
  "getHeaders r = headers r"

definition getHeaderNames :: "server_response \<Rightarrow> string list" where
  "getHeaderNames r = map fst (headers r)"

definition removeHeader :: "string \<Rightarrow> server_response \<Rightarrow> server_response" where
  "removeHeader name r =
     (if \<not> res_disposed r then r\<lparr> headers := AList.delete (toLowerCase name) (headers r) \<rparr>
      else r)"

text \<open>\<open>Object.assign(target, source)\<close>: each own property of the source, in order.\<close>

definition Object_assign :: "(string \<times> string) list \<Rightarrow> (string \<times> string) list \<Rightarrow> (string \<times> string) list" where
  "Object_assign target source = fold (\<lambda>(k, v) t. AList.update k v t) source target"

definition writeHead ::
  "int \<Rightarrow> string option \<Rightarrow> (string \<times> string) list option \<Rightarrow> server_response \<Rightarrow> server_response" where
  "writeHead code msg hs r =
     (if headersSent r \<or> res_disposed r \<or> res_responseSent r then r
      else
        let r1 = r\<lparr> statusCode := code \<rparr>;
            r2 = (case msg of
                    None \<Rightarrow> r1
                  | Some s \<Rightarrow> if s \<noteq> [] then r1\<lparr> statusMessage := s \<rparr> else r1);
            r3 = (case hs of
                    None \<Rightarrow> r2
                  | Some h \<Rightarrow> r2\<lparr> headers := Object_assign (headers r2) h \<rparr>)
        in r3\<lparr> headersSent := True \<rparr>)"


text \<open>
  \<open>this._body.join('')\<close>: \<open>undefined\<close> and \<open>null\<close> elements give the empty string,
  a string gives itself, anything else its conversion to a string.
\<close>

definition chunk_text :: "builtins \<Rightarrow> jsval \<Rightarrow> string" where
  "chunk_text B c =
     (case c of JUndefined \<Rightarrow> [] | JNull \<Rightarrow> [] | JStr s \<Rightarrow> s | _ \<Rightarrow> ToString B c)"

definition join :: "builtins \<Rightarrow> jsval list \<Rightarrow> string" where
  "join B chunks = concat (map (chunk_text B) chunks)"

definition combineBody :: "builtins \<Rightarrow> server_response \<Rightarrow> jsval" where
  "combineBody B r =
     (if length (res_body r) = 0 then JUndefined
      else
        let combined = join B (res_body r)
        in if startsWith combined ''{'' \<or> startsWith combined ''[''
           then (case JSON_parse B combined of
                   Some v \<Rightarrow> v
                 | None \<Rightarrow> JStr combined)
           else JStr combined)"

text \<open>
  \<open>end(chunk?)\<close>, with \<open>JUndefined\<close> for a missing chunk. The result is what the
  call threw, if anything, and the object and the webview as the call leaves them.
  \<open>this.emit('finish')\<close> stands before the \<open>try\<close>: when a listener of \<open>finish\<close>
  throws, \<open>end\<close> throws the same, with \<open>finished\<close> set and nothing posted. A throw
  of \<open>postMessage\<close> is caught and logged: nothing is posted then either, and \<open>end\<close>
  returns. \<open>responseMessage\<close> is the object literal built inside the \<open>try\<close>, and
  \<open>emit_finish\<close> is the call \<open>this.emit('finish')\<close>.
\<close>

definition responseMessage :: "builtins \<Rightarrow> int \<Rightarrow> server_response \<Rightarrow> message" where
  "responseMessage B now r =
     \<lparr> m_id = res_correlationId r, m_type = TResponse, m_method = None, m_url = None,
       m_headers = Some (headers r),
       m_body = (if length (res_body r) > 0 then combineBody B r else JUndefined),
       m_status = Some (statusCode r), m_error = None, m_stack = None,
       m_instanceId = (if res_instanceId r \<noteq> [] then Some (res_instanceId r) else None),
       m_timestamp = now \<rparr>"

definition emit_finish :: "server_response \<Rightarrow> thrown option \<times> server_response" where
  "emit_finish r =
     (case emit ''finish'' (res_listeners r) of
        (called, ls, t) \<Rightarrow>
          (t, r\<lparr> res_listeners := ls, res_emitted := res_emitted r @ [(''finish'', called)] \<rparr>))"

definition end_response ::
  "builtins \<Rightarrow> jsval \<Rightarrow> int \<Rightarrow> server_response \<times> webview
     \<Rightarrow> thrown option \<times> server_response \<times> webview" where
  "end_response B chunk now rw =
     (let r = fst rw; w = snd rw
      in if finished r \<or> res_disposed r \<or> res_responseSent r then (None, r, w)
         else
           let r1 = r\<lparr> res_responseSent := True \<rparr>;
               r2 = (if chunk \<noteq> JUndefined then r1\<lparr> res_body := res_body r1 @ [chunk] \<rparr> else r1);
               r3 = (if \<not> headersSent r2 then r2\<lparr> headersSent := True \<rparr> else r2)
           in case emit_finish (r3\<lparr> finished := True \<rparr>) of
                (Some x, r4) \<Rightarrow> (Some x, r4, w)
              | (None, r4) \<Rightarrow>
                  (case postMessage (responseMessage B now r4) w of
                     Inl e \<Rightarrow> (None, r4, w)
                   | Inr w' \<Rightarrow> (None, r4, w')))"

definition dispose_response :: "server_response \<Rightarrow> server_response" where
  "dispose_response r =
     (if res_disposed r then r
      else r\<lparr> res_disposed := True, finished := True, res_listeners := [] \<rparr>)"

definition on :: "string \<Rightarrow> listener \<Rightarrow> server_response \<Rightarrow> server_response" where
  "on ev f r =
     (if \<not> res_disposed r then r\<lparr> res_listeners := res_listeners r @ [(ev, False, f)] \<rparr> else r)"

definition once :: "string \<Rightarrow> listener \<Rightarrow> server_response \<Rightarrow> server_response" where
  "once ev f r =
     (if \<not> res_disposed r then r\<lparr> res_listeners := res_listeners r @ [(ev, True, f)] \<rparr> else r)"


section \<open>Transport server (server/src/transport/vscode-transport-server.ts)\<close>

text \<open>
  The class \<open>VSCodeHttpRequest\<close>, as far as its constructor sets it up at once; the
  \<open>data\<close> and \<open>end\<close> events it emits on the next tick are left out.
\<close>

record http_request =
  req_method :: string
  req_url :: string
  req_headers :: "(string \<times> string) list"
  req_body :: jsval

definition new_request :: "message \<Rightarrow> http_request" where
  "new_request message =
     (let hs = (case m_headers message of None \<Rightarrow> [] | Some h \<Rightarrow> h);
          body = m_body message;
          hs' = (if body \<noteq> JUndefined
                    \<and> (case map_of hs ''content-type'' of None \<Rightarrow> True | Some v \<Rightarrow> v = [])
                 then AList.update ''content-type'' ''application/json'' hs else hs)
      in \<lparr> req_method = (case m_method message of None \<Rightarrow> [] | Some x \<Rightarrow> x),
           req_url = (case m_url message of None \<Rightarrow> [] | Some x \<Rightarrow> x),
           req_headers = hs', req_body = body \<rparr>)"

text \<open>
  What a server emits: \<open>request\<close> carries the request object and the reference of
  the response object.
\<close>

datatype server_event = EvListening | EvRequest http_request nat | EvClose

text \<open>
  The class \<open>VSCodeHttpTransportServer\<close>. The public field \<open>listening\<close> is declared
  \<open>false\<close> and no method writes it. \<open>srv_pendingResponses\<close> is the in-flight set,
  holding references into the store of response objects.
\<close>

record server =
  listening :: bool
  srv_listening :: bool
  srv_disposed :: bool
  srv_pendingResponses :: "nat list"
  messageHandlerLock :: bool
  srv_instanceId :: string
  srv_emitted :: "server_event list"

text \<open>
  The servers built on one webview, with the objects they share: the store of
  response objects, the webview itself, the entry of \<open>webviewServerRegistry\<close> for
  this webview, and the servers subscribed to its messages, in the order they
  subscribed.
\<close>

record server_world =
  servers :: "(nat \<times> server) list"
  responses :: "(nat \<times> server_response) list"
  channel :: webview
  registered :: "nat option"
  subscribers :: "nat list"

definition empty_world :: server_world where
  "empty_world =
     \<lparr> servers = [], responses = [], channel = \<lparr> wv_disposed = False, posted = [] \<rparr>,
       registered = None, subscribers = [] \<rparr>"

text \<open>
  The constructor; \<open>instanceId\<close> is the string it generates from the clock and the
  random source. The new server is registered for the webview whatever was there.
\<close>

definition new_server :: "string \<Rightarrow> server_world \<Rightarrow> nat \<times> server_world" where
  "new_server instanceId w =
     (let self = length (servers w);
          s = \<lparr> listening = False, srv_listening = False, srv_disposed = False,
                srv_pendingResponses = [], messageHandlerLock = False,
                srv_instanceId = instanceId, srv_emitted = [] \<rparr>
      in (self, w\<lparr> servers := servers w @ [(self, s)], registered := Some self \<rparr>))"

definition srv_isDisposed :: "nat \<Rightarrow> server_world \<Rightarrow> bool" where
  "srv_isDisposed ref w = (case map_of (servers w) ref of None \<Rightarrow> True | Some s \<Rightarrow> srv_disposed s)"

definition getInstanceId :: "nat \<Rightarrow> server_world \<Rightarrow> string" where
  "getInstanceId ref w = (case map_of (servers w) ref of None \<Rightarrow> [] | Some s \<Rightarrow> srv_instanceId s)"

definition isPrimaryServer :: "nat \<Rightarrow> server_world \<Rightarrow> bool" where
  "isPrimaryServer ref w \<longleftrightarrow> registered w = Some ref"

definition listen :: "nat \<Rightarrow> server_world \<Rightarrow> server_world" where
  "listen self w =
     (case map_of (servers w) self of
        None \<Rightarrow> w
      | Some s \<Rightarrow>
          if srv_listening s \<or> srv_disposed s then w
          else w\<lparr> servers := AList.update self
                                (s\<lparr> srv_listening := True,
                                    srv_emitted := srv_emitted s @ [EvListening] \<rparr>) (servers w),
                   subscribers := subscribers w @ [self] \<rparr>)"

fun dispose_all :: "nat list \<Rightarrow> (nat \<times> server_response) list \<Rightarrow> (nat \<times> server_response) list" where
  "dispose_all [] rs = rs"
| "dispose_all (ref # refs) rs =
     dispose_all refs
       (case map_of rs ref of
          None \<Rightarrow> rs
        | Some r \<Rightarrow> AList.update ref (dispose_response r) rs)"

definition close :: "nat \<Rightarrow> server_world \<Rightarrow> server_world" where
  "close self w =
     (case map_of (servers w) self of
        None \<Rightarrow> w
      | Some s \<Rightarrow>
          if \<not> srv_listening s \<or> srv_disposed s then w
          else w\<lparr> servers := AList.update self
                                (s\<lparr> srv_listening := False, srv_disposed := True,
                                    srv_pendingResponses := [],
                                    srv_emitted := srv_emitted s @ [EvClose] \<rparr>) (servers w),
                   responses := dispose_all (srv_pendingResponses s) (responses w),
                   subscribers := removeAll self (subscribers w),
                   registered := (if registered w = Some self then None else registered w) \<rparr>)"

definition sendErrorResponse :: "nat \<Rightarrow> string \<Rightarrow> thrown \<Rightarrow> int \<Rightarrow> server_world \<Rightarrow> server_world" where
  "sendErrorResponse self messageId err now w =
     (case map_of (servers w) self of
        None \<Rightarrow> w
      | Some s \<Rightarrow>
          if srv_disposed s then w
          else
            let errorMessage =
                  \<lparr> m_id = messageId, m_type = TError, m_method = None, m_url = None,
                    m_headers = None, m_body = JUndefined, m_status = Some 500,
                    m_error = Some (case err of ErrorObject msg \<Rightarrow> msg
                                               | OtherValue \<Rightarrow> ''Unknown error''),
                    m_stack = None,
                    m_instanceId = (if srv_instanceId s \<noteq> [] then Some (srv_instanceId s) else None),
                    m_timestamp = now \<rparr>
            in case postMessage errorMessage (channel w) of
                 Inl e \<Rightarrow> w
               | Inr c \<Rightarrow> w\<lparr> channel := c \<rparr>)"

text \<open>
  \<open>_handleMessage\<close>. \<open>outcome\<close> is what the listeners of \<open>request\<close> do when called:
  return (\<open>None\<close>) or throw. What they do to the response object they were handed is
  a sequence of calls on that object, made on the store afterwards (\<open>end_stored\<close>
  below). The lock is taken before the \<open>try\<close> and released in its \<open>finally\<close>.
\<close>

definition handleMessage ::
  "nat \<Rightarrow> message \<Rightarrow> thrown option \<Rightarrow> int \<Rightarrow> server_world \<Rightarrow> server_world" where
  "handleMessage self message outcome now w =
     (case map_of (servers w) self of
        None \<Rightarrow> w
      | Some s \<Rightarrow>
          if messageHandlerLock s \<or> srv_disposed s \<or> \<not> srv_listening s then w
          else if \<not> isRequestMessage message then w
          else if (case registered w of
                     None \<Rightarrow> False
                   | Some registeredServer \<Rightarrow>
                       registeredServer \<noteq> self \<and> \<not> srv_isDisposed registeredServer w)
          then w
          else
            let req = new_request message;
                ref = length (responses w);
                res = once ''finish'' (Untrack self) (new_response (m_id message) (srv_instanceId s));
                s1 = s\<lparr> messageHandlerLock := True,
                        srv_pendingResponses := Set_add ref (srv_pendingResponses s),
                        srv_emitted := srv_emitted s @ [EvRequest req ref] \<rparr>;
                w1 = w\<lparr> servers := AList.update self s1 (servers w),
                        responses := responses w @ [(ref, res)] \<rparr>;
                w2 = (case outcome of
                        None \<Rightarrow> w1
                      | Some err \<Rightarrow> sendErrorResponse self (m_id message) err now w1)
            in w2\<lparr> servers := AList.update self (s1\<lparr> messageHandlerLock := False \<rparr>) (servers w2) \<rparr>)"

text \<open>
  A call of \<open>end\<close> on a stored response object. The object and the webview change
  as \<open>end_response\<close> says, and every \<open>Untrack\<close> listener that the call's
  \<open>emit\<close> called deletes the object from the in-flight set of its server.
\<close>

fun untrack :: "listener list \<Rightarrow> nat \<Rightarrow> (nat \<times> server) list \<Rightarrow> (nat \<times> server) list" where
  "untrack [] ref ss = ss"
| "untrack (Untrack owner # fs) ref ss =
     untrack fs ref
       (case map_of ss owner of
          None \<Rightarrow> ss
        | Some s \<Rightarrow>
            AList.update owner
              (s\<lparr> srv_pendingResponses := removeAll ref (srv_pendingResponses s) \<rparr>) ss)"
| "untrack (Foreign n t # fs) ref ss = untrack fs ref ss"

definition end_stored ::
  "builtins \<Rightarrow> nat \<Rightarrow> jsval \<Rightarrow> int \<Rightarrow> server_world \<Rightarrow> thrown option \<times> server_world" where
  "end_stored B ref chunk now w =
     (case map_of (responses w) ref of
        None \<Rightarrow> (None, w)
      | Some r \<Rightarrow>
          (case end_response B chunk now (r, channel w) of
             (t, r', c) \<Rightarrow>
               (t, w\<lparr> responses := AList.update ref r' (responses w), channel := c,
                      servers := untrack
                                   (concat (map snd (drop (length (res_emitted r)) (res_emitted r'))))
                                   ref (servers w) \<rparr>)))"

text \<open>A message arrives on the webview: every subscribed handler is called with it, in order.\<close>

fun deliver :: "nat list \<Rightarrow> message \<Rightarrow> thrown option \<Rightarrow> int \<Rightarrow> server_world \<Rightarrow> server_world" where
  "deliver [] message outcome now w = w"
| "deliver (self # rest) message outcome now w =
     deliver rest message outcome now (handleMessage self message outcome now w)"

section \<open>Client response object (client/src/http-client/vscode-http-client.ts)\<close>

text \<open>The client-side class \<open>VSCodeHttpResponse\<close>, a \<open>fetch\<close>-like response.\<close>

record client_response =
  cr_status :: int
  cr_statusText :: string
  cr_headers :: "(string \<times> string) list"
  cr_ok :: bool
  cr_url :: string
  cr_body :: jsval

definition getStatusText :: "int \<Rightarrow> string" where
  "getStatusText status =
     (case map_of
        [(200, ''OK''), (201, ''Created''), (202, ''Accepted''), (204, ''No Content''),
         (400, ''Bad Request''), (401, ''Unauthorized''), (403, ''Forbidden''),
         (404, ''Not Found''), (405, ''Method Not Allowed''), (408, ''Request Timeout''),
         (409, ''Conflict''), (422, ''Unprocessable Entity''),
         (500, ''Internal Server Error''), (501, ''Not Implemented''),
         (502, ''Bad Gateway''), (503, ''Service Unavailable'')] status of
        None \<Rightarrow> ''Unknown''
      | Some t \<Rightarrow> t)"

text \<open>The constructor, called with a \<open>ResponseMessage\<close>: its status is there.\<close>

definition new_client_response :: "message \<Rightarrow> string \<Rightarrow> client_response" where
  "new_client_response message url =
     (let status = (case m_status message of None \<Rightarrow> 0 | Some st \<Rightarrow> st)
      in \<lparr> cr_status = status, cr_statusText = getStatusText status,
           cr_headers = (case m_headers message of None \<Rightarrow> [] | Some h \<Rightarrow> h),
           cr_ok = (status \<ge> 200 \<and> status < 300), cr_url = url,
           cr_body = m_body message \<rparr>)"

text \<open>
  \<open>json()\<close> and \<open>text()\<close> are \<open>async\<close>: the promise they return is rejected with an
  \<open>Error\<close> (\<open>Inl\<close> of its message) or resolved with a value (\<open>Inr\<close>). Each returns
  the object as the call leaves it, next to the outcome.
\<close>

definition js_string :: "builtins \<Rightarrow> jsval \<Rightarrow> string" where
  "js_string B v = (case v of JStr s \<Rightarrow> s | _ \<Rightarrow> ToString B v)"

definition json :: "builtins \<Rightarrow> client_response \<Rightarrow> (string + jsval) \<times> client_response" where
  "json B r =
     (if cr_body r = JUndefined \<or> cr_body r = JNull then (Inl ''Response body is empty'', r)
      else if typeof (cr_body r) = ''object'' then (Inr (cr_body r), r)
      else (case JSON_parse B (js_string B (cr_body r)) of
              Some v \<Rightarrow> (Inr v, r)
            | None \<Rightarrow> (Inl ''Response is not valid JSON'', r)))"

definition text_of :: "builtins \<Rightarrow> client_response \<Rightarrow> (string + string) \<times> client_response" where
  "text_of B r =
     (if cr_body r = JUndefined \<or> cr_body r = JNull then (Inr [], r)
      else (Inr (case cr_body r of JStr s \<Rightarrow> s | b \<Rightarrow> JSON_stringify B b), r))"

section \<open>HTTP client (client/src/http-client/vscode-http-client.ts)\<close>

text \<open>
  The class \<open>VSCodeHttpClient\<close>: each client owns a correlation manager and the set
  of the correlation ids it is waiting for.
\<close>

record client =
  c_disposed :: bool
  c_instanceId :: string
  c_baseUrl :: string
  c_correlationManager :: manager
  c_pendingRequests :: "string list"

text \<open>
  The clients of one webview page with the module's globals: \<open>globalClientRegistry\<close>
  (a \<open>Set\<close>, in insertion order) and \<open>primaryClient\<close>; the clients listening for
  \<open>message\<close> events on the window; what was posted to the extension; and the
  closures that \<open>fetch\<close> has handed to the correlation managers, each with the
  client and the correlation id it holds.
\<close>

record client_world =
  clients :: "(nat \<times> client) list"
  globalClientRegistry :: "nat list"
  primaryClient :: "nat option"
  window_listeners :: "nat list"
  sent :: "message list"
  closures :: "(callback \<times> nat \<times> string) list"

definition empty_page :: client_world where
  "empty_page =
     \<lparr> clients = [], globalClientRegistry = [], primaryClient = None,
       window_listeners = [], sent = [], closures = [] \<rparr>"

definition client_isDisposed :: "nat \<Rightarrow> client_world \<Rightarrow> bool" where
  "client_isDisposed ref w = (case map_of (clients w) ref of None \<Rightarrow> True | Some c \<Rightarrow> c_disposed c)"

definition isPrimaryClient :: "nat \<Rightarrow> client_world \<Rightarrow> bool" where
  "isPrimaryClient ref w \<longleftrightarrow> primaryClient w = Some ref"

text \<open>
  The constructor, given a VS Code API object. \<open>instanceId\<close> and \<open>baseUrl\<close> are the
  options; \<open>generated\<close> is the id built from the clock and the random source, used
  when the option is missing or empty.
\<close>

definition new_client :: "string option \<Rightarrow> string option \<Rightarrow> string \<Rightarrow> client_world \<Rightarrow> nat \<times> client_world" where
  "new_client instanceId baseUrl generated w =
     (let self = length (clients w);
          c = \<lparr> c_disposed = False,
                c_instanceId = (case instanceId of
                                  None \<Rightarrow> generated
                                | Some i \<Rightarrow> if i \<noteq> [] then i else generated),
                c_baseUrl = (case baseUrl of None \<Rightarrow> [] | Some b \<Rightarrow> b),
                c_correlationManager = new_manager None,
                c_pendingRequests = [] \<rparr>
      in (self,
          w\<lparr> clients := clients w @ [(self, c)],
             globalClientRegistry := Set_add self (globalClientRegistry w),
             primaryClient := (case primaryClient w of
                                 None \<Rightarrow> Some self
                               | Some p \<Rightarrow> if client_isDisposed p w then Some self else Some p),
             window_listeners := window_listeners w @ [self] \<rparr>))"

text \<open>
  \<open>_handleMessage\<close>. \<open>truthy\<close> is the test the source applies to an
  \<open>instanceId\<close>: there, and not the empty string. \<open>early_return\<close> holds when one
  of the three \<open>return\<close> statements at the top is taken; \<open>forward\<close> is the
  \<open>if\<close>/\<open>else if\<close> at the bottom, as it changes the correlation manager.
\<close>

definition truthy :: "string option \<Rightarrow> bool" where
  "truthy x \<longleftrightarrow> (case x of None \<Rightarrow> False | Some s \<Rightarrow> s \<noteq> [])"

definition early_return :: "nat \<Rightarrow> message \<Rightarrow> client_world \<Rightarrow> bool" where
  "early_return self message w \<longleftrightarrow>
     (case map_of (clients w) self of
        None \<Rightarrow> True
      | Some c \<Rightarrow>
          c_disposed c
          \<or> (truthy (m_instanceId message) \<and> m_instanceId message \<noteq> Some (c_instanceId c))
          \<or> (\<not> truthy (m_instanceId message)
               \<and> (case primaryClient w of
                     None \<Rightarrow> False
                   | Some p \<Rightarrow> p \<noteq> self \<and> \<not> client_isDisposed p w)))"

definition forward :: "message \<Rightarrow> manager \<Rightarrow> manager" where
  "forward message m =
     (if isResponseMessage message then snd (resolveRequest (m_id message) message m)
      else if isErrorMessage message then snd (rejectRequest (m_id message) message m)
      else m)"

definition client_handleMessage :: "nat \<Rightarrow> message \<Rightarrow> client_world \<Rightarrow> client_world" where
  "client_handleMessage self message w =
     (if early_return self message w then w
      else case map_of (clients w) self of
             None \<Rightarrow> w
           | Some c \<Rightarrow>
               w\<lparr> clients := AList.update self
                     (c\<lparr> c_correlationManager := forward message (c_correlationManager c) \<rparr>)
                     (clients w) \<rparr>)"

text \<open>The listener each client puts on the window: \<open>_messageHandler\<close>.\<close>

definition messageHandler :: "nat \<Rightarrow> message \<Rightarrow> client_world \<Rightarrow> client_world" where
  "messageHandler self message w =
     (if \<not> client_isDisposed self w then client_handleMessage self message w else w)"

text \<open>\<open>url.replace(/\/+/g, '/')\<close>: every run of slashes becomes one slash.\<close>

fun collapse_slashes :: "string \<Rightarrow> string" where
  "collapse_slashes [] = []"
| "collapse_slashes [c] = [c]"
| "collapse_slashes (c # d # cs) =
     (if c = CHR ''/'' \<and> d = CHR ''/'' then collapse_slashes (d # cs)
      else c # collapse_slashes (d # cs))"

fun str_includes :: "string \<Rightarrow> string \<Rightarrow> bool" where
  "str_includes [] p = (p = [])"
| "str_includes (c # cs) p = (startsWith (c # cs) p \<or> str_includes cs p)"

definition resolveUrl :: "client \<Rightarrow> string \<Rightarrow> string" where
  "resolveUrl c url =
     (if startsWith url ''/'' \<or> str_includes url ''://'' then url
      else if c_baseUrl c \<noteq> [] then collapse_slashes (c_baseUrl c @ ''/'' @ url)
      else url)"

text \<open>
  \<open>fetch\<close> up to the point where it returns its promise. \<open>correlationId\<close> is the id
  \<open>generateCorrelationId\<close> gives; \<open>resolve\<close> and \<open>reject\<close> are the handles of the
  two closures it builds and hands to the manager; \<open>post_fails\<close> is what
  \<open>postMessage\<close> does: return, or throw. \<open>Inl\<close> is the error thrown before any
  request is made.
\<close>

record RequestOptions =
  o_method :: "string option"
  o_headers :: "(string \<times> string) list option"
  o_body :: jsval
  o_timeout :: "int option"

definition fetch ::
  "nat \<Rightarrow> string \<Rightarrow> RequestOptions \<Rightarrow> string \<Rightarrow> callback \<Rightarrow> callback \<Rightarrow> thrown option \<Rightarrow> int
     \<Rightarrow> client_world \<Rightarrow> string + client_world" where
  "fetch self url options correlationId resolve reject post_fails now w =
     (case map_of (clients w) self of
        None \<Rightarrow> Inl ''HTTP client has been disposed''
      | Some c \<Rightarrow>
          if c_disposed c then Inl ''HTTP client has been disposed''
          else
            let method = (case o_method options of
                            None \<Rightarrow> ''GET''
                          | Some x \<Rightarrow> if x \<noteq> [] then x else ''GET'');
                fullUrl = resolveUrl c url;
                requestMessage =
                  \<lparr> m_id = correlationId, m_type = TRequest, m_method = Some method,
                    m_url = Some fullUrl, m_headers = o_headers options,
                    m_body = o_body options, m_status = None, m_error = None,
                    m_stack = None,
                    m_instanceId = (if c_instanceId c \<noteq> [] then Some (c_instanceId c) else None),
                    m_timestamp = now \<rparr>;
                mgr = addPendingRequest correlationId resolve reject (o_timeout options) now
                        (c_correlationManager c);
                c1 = c\<lparr> c_pendingRequests := Set_add correlationId (c_pendingRequests c),
                        c_correlationManager := mgr \<rparr>
            in (case post_fails of
                  None \<Rightarrow>
                    Inr (w\<lparr> clients := AList.update self c1 (clients w),
                            sent := sent w @ [requestMessage],
                            closures := closures w @ [(resolve, self, correlationId),
                                                      (reject, self, correlationId)] \<rparr>)
                | Some err \<Rightarrow>
                    Inr (w\<lparr> clients := AList.update self
                               (c1\<lparr> c_pendingRequests := removeAll correlationId (c_pendingRequests c1),
                                    c_correlationManager :=
                                      snd (rejectRequest correlationId
                                             (error_literal correlationId
                                                (case err of ErrorObject msg \<Rightarrow> msg
                                                           | OtherValue \<Rightarrow> ''Failed to send message'')
                                                503 now) mgr) \<rparr>)
                               (clients w),
                            closures := closures w @ [(resolve, self, correlationId),
                                                      (reject, self, correlationId)] \<rparr>)))"

text \<open>\<open>dispose\<close>: the loop looks for the first client of the registry that is not disposed.\<close>

definition client_dispose :: "nat \<Rightarrow> int \<Rightarrow> client_world \<Rightarrow> client_world" where
  "client_dispose self now w =
     (case map_of (clients w) self of
        None \<Rightarrow> w
      | Some c \<Rightarrow>
          if c_disposed c then w
          else
            let c1 = c\<lparr> c_disposed := True \<rparr>;
                w1 = w\<lparr> clients := AList.update self c1 (clients w),
                        globalClientRegistry := removeAll self (globalClientRegistry w) \<rparr>;
                w2 = (if primaryClient w1 = Some self
                      then w1\<lparr> primaryClient :=
                                 find (\<lambda>k. \<not> client_isDisposed k w1) (globalClientRegistry w1) \<rparr>
                      else w1);
                w3 = w2\<lparr> window_listeners := removeAll self (window_listeners w2) \<rparr>
            in w3\<lparr> clients := AList.update self
                      (c1\<lparr> c_correlationManager := clearAllRequests now (c_correlationManager c1),
                           c_pendingRequests := [] \<rparr>)
                      (clients w3) \<rparr>)"

text \<open>
  The runtime runs what a client's correlation manager has queued with
  \<open>process.nextTick\<close>. Each callback called is one of the closures of \<open>fetch\<close>: it
  deletes the correlation id it holds from \<open>_pendingRequests\<close> of its client and
  settles the promise of its \<open>fetch\<close>.
\<close>

definition callback_of :: "call \<Rightarrow> callback" where
  "callback_of c = (case c of CallResolve f x \<Rightarrow> f | CallReject f x \<Rightarrow> f)"

fun run_closures ::
  "call list \<Rightarrow> (callback \<times> nat \<times> string) list \<Rightarrow> (nat \<times> client) list \<Rightarrow> (nat \<times> client) list" where
  "run_closures [] cl cs = cs"
| "run_closures (c # rest) cl cs =
     run_closures rest cl
       (case map_of cl (callback_of c) of
          None \<Rightarrow> cs
        | Some (owner, correlationId) \<Rightarrow>
            (case map_of cs owner of
               None \<Rightarrow> cs
             | Some x \<Rightarrow>
                 AList.update owner
                   (x\<lparr> c_pendingRequests := removeAll correlationId (c_pendingRequests x) \<rparr>) cs))"

definition client_tick :: "nat \<Rightarrow> client_world \<Rightarrow> client_world" where
  "client_tick self w =
     (case map_of (clients w) self of
        None \<Rightarrow> w
      | Some c \<Rightarrow>
          w\<lparr> clients :=
               run_closures (tickQueue (c_correlationManager c)) (closures w)
                 (AList.update self
                    (c\<lparr> c_correlationManager := run_ticks (c_correlationManager c) \<rparr>)
                    (clients w)) \<rparr>)"

text \<open>A timeout set by a client's correlation manager fires.\<close>

definition client_timeout :: "nat \<Rightarrow> timer \<Rightarrow> int \<Rightarrow> client_world \<Rightarrow> client_world" where
  "client_timeout self h now w =
     (case map_of (clients w) self of
        None \<Rightarrow> w
      | Some c \<Rightarrow>
          w\<lparr> clients := AList.update self
                 (c\<lparr> c_correlationManager := fire_timer h now (c_correlationManager c) \<rparr>)
                 (clients w) \<rparr>)"

text \<open>
  The pages that can arise: clients are built, used and disposed, their timeouts
  fire and their queued callbacks run.
\<close>

inductive page_reachable :: "client_world \<Rightarrow> bool" where
  p_empty: "page_reachable empty_page"
| p_new: "page_reachable w \<Longrightarrow> page_reachable (snd (new_client i b g w))"
| p_fetch: "page_reachable w \<Longrightarrow> fetch self url opts cid res rej pf now w = Inr w'
            \<Longrightarrow> page_reachable w'"
| p_message: "page_reachable w \<Longrightarrow> page_reachable (messageHandler self message w)"
| p_dispose: "page_reachable w \<Longrightarrow> page_reachable (client_dispose self now w)"
| p_tick: "page_reachable w \<Longrightarrow> page_reachable (client_tick self w)"
| p_timeout: "page_reachable w \<Longrightarrow> page_reachable (client_timeout self h now w)"

text \<open>
  What holds of every such page: every client has a reference below the number of
  clients, a client that is not disposed is in the registry, and the primary client
  is not disposed; there is none only when every client is disposed.
\<close>

definition page_inv :: "client_world \<Rightarrow> bool" where
  "page_inv w \<longleftrightarrow>
     (\<forall>k. length (clients w) \<le> k \<longrightarrow> map_of (clients w) k = None)
     \<and> (\<forall>k c. map_of (clients w) k = Some c \<and> \<not> c_disposed c \<longrightarrow> k \<in> set (globalClientRegistry w))
     \<and> (case primaryClient w of
           None \<Rightarrow> (\<forall>k c. map_of (clients w) k = Some c \<longrightarrow> c_disposed c)
         | Some p \<Rightarrow> \<not> client_isDisposed p w)"

section \<open>Inputs for the worked examples\<close>

text \<open>
  A runtime for the examples: its \<open>JSON.parse\<close> reads the one JSON text the
  examples parse and throws on every other string, and its conversions are those of
  JavaScript on booleans, the empty array and plain objects.
\<close>

definition example_parse :: "string \<Rightarrow> jsval option" where
  \<open>example_parse s = (if s = ''{"a":1}'' then Some (JObj [(''a'', JNum 1)]) else None)\<close>

definition example_to_string :: "jsval \<Rightarrow> string" where
  "example_to_string v =
     (if v = JBool True then ''true'' else if v = JBool False then ''false''
      else if v = JArr [] then [] else ''[object Object]'')"

definition example_stringify :: "jsval \<Rightarrow> string" where
  "example_stringify v =
     (if v = JBool True then ''true'' else if v = JBool False then ''false''
      else if v = JArr [] then ''[]'' else ''{}'')"

definition example_builtins :: builtins where
  "example_builtins =
     \<lparr> JSON_parse = example_parse, JSON_stringify = example_stringify,
       ToString = example_to_string \<rparr>"

definition open_webview :: webview where
  "open_webview = \<lparr> wv_disposed = False, posted = [] \<rparr>"

text \<open>
  A request \<open>GET /x\<close>, tagged with the instance id of the first of the two
  servers below.
\<close>

definition example_request :: message where
  "example_request =
     \<lparr> m_id = ''17-k3j9x0q2m'', m_type = TRequest, m_method = Some ''GET'', m_url = Some ''/x'',
       m_headers = None, m_body = JUndefined, m_status = None, m_error = None,
       m_stack = None, m_instanceId = Some ''server_1_4fzzzxjyl'', m_timestamp = 0 \<rparr>"

text \<open>
  Two servers on one webview, both listening: server \<open>0\<close> was built first, then
  server \<open>1\<close>; each has the instance id its constructor generated.
\<close>

definition two_servers :: server_world where
  "two_servers =
     listen 1 (listen 0 (snd (new_server ''server_2_k3j9x0q2m''
       (snd (new_server ''server_1_4fzzzxjyl'' empty_world)))))"

text \<open>
  A response with status 200 to the request of client \<open>0\<close> below, with the given
  instance id.
\<close>

definition example_response :: "string option \<Rightarrow> message" where
  "example_response tag =
     \<lparr> m_id = ''17-k3j9x0q2m'', m_type = TResponse, m_method = None, m_url = None,
       m_headers = None, m_body = JNull, m_status = Some 200, m_error = None,
       m_stack = None, m_instanceId = tag, m_timestamp = 3 \<rparr>"

definition no_options :: RequestOptions where
  "no_options = \<lparr> o_method = None, o_headers = None, o_body = JUndefined, o_timeout = None \<rparr>"

text \<open>
  A page with two clients, \<open>0\<close> with the instance id \<open>A\<close> and \<open>1\<close> with \<open>B\<close>;
  each has sent one request.
\<close>

definition two_clients :: client_world where
  "two_clients =
     (case fetch 0 ''/x'' no_options ''17-k3j9x0q2m'' 10 11 None 1
             (snd (new_client (Some ''B'') None ''client_2_b''
                (snd (new_client (Some ''A'') None ''client_1_a'' empty_page)))) of
        Inl e \<Rightarrow> empty_page
      | Inr w \<Rightarrow>
          (case fetch 1 ''/x'' no_options ''18-4fzzzxjyl'' 20 21 None 2 w of
             Inl e \<Rightarrow> empty_page
           | Inr w' \<Rightarrow> w'))"

definition manager_of :: "nat \<Rightarrow> client_world \<Rightarrow> manager" where
  "manager_of ref w =
     (case map_of (clients w) ref of None \<Rightarrow> new_manager None | Some c \<Rightarrow> c_correlationManager c)"

section \<open>Properties of the correlation manager\<close>

lemma delete_keys_subset: "h \<in> fst ` set (AList.delete k al) \<Longrightarrow> h \<in> fst ` set al"
  using dom_delete_subset[of k al] by blast

lemma clearRequest_fields:
  "disposed (clearRequest i m) = disposed m"
  "nextTimer (clearRequest i m) = nextTimer m"
  "pendingRequests (clearRequest i m) = AList.delete i (pendingRequests m)"
  "tickQueue (clearRequest i m) = tickQueue m"
  "invoked (clearRequest i m) = invoked m"
  by (simp_all add: clearRequest_def clearTimeout_def Let_def split: option.splits)

lemma clearRequest_timer:
  "map_of (pendingRequests m) i = Some request \<Longrightarrow> p_timeout request = Some h \<Longrightarrow>
   map_of (timers (clearRequest i m)) h = None"
  by (simp add: clearRequest_def clearTimeout_def Let_def delete_conv')

lemma inv_resolve: "mgr_inv m \<Longrightarrow> mgr_inv (snd (resolveRequest i r m))"
  by (simp add: mgr_inv_def resolveRequest_def nextTick_def clearRequest_fields split: option.splits)

lemma inv_reject: "mgr_inv m \<Longrightarrow> mgr_inv (snd (rejectRequest i r m))"
  by (simp add: mgr_inv_def rejectRequest_def nextTick_def clearRequest_fields split: option.splits)

lemma inv_add: "mgr_inv m \<Longrightarrow> mgr_inv (addPendingRequest i res rej t now m)"
  by (simp add: mgr_inv_def addPendingRequest_def setTimeout_def Let_def split: option.splits)

lemma inv_fire: "mgr_inv m \<Longrightarrow> mgr_inv (fire_timer h now m)"
proof (cases "map_of (timers m) h")
  case None
  then show "mgr_inv m \<Longrightarrow> ?thesis" by (simp add: fire_timer_def)
next
  case (Some p)
  assume "mgr_inv m"
  then have "mgr_inv (m\<lparr> timers := AList.delete h (timers m) \<rparr>)"
    by (simp add: mgr_inv_def)
  then show ?thesis using Some
    by (cases p) (simp add: fire_timer_def inv_reject)
qed

lemma reject_each_fields:
  "disposed (reject_each xs e s) = disposed s"
  "pendingRequests (reject_each xs e s) = pendingRequests s"
  "invoked (reject_each xs e s) = invoked s"
  "tickQueue (reject_each xs e s)
       = tickQueue s @ map (\<lambda>(i, request). CallReject (p_reject request) e) xs"
  by (induction xs e s rule: reject_each.induct)
     (simp_all add: nextTick_def clearTimeout_def split: option.splits)

lemma reject_each_timers:
  "map_of (timers s) h = None \<or> (\<exists>(i, request) \<in> set xs. p_timeout request = Some h) \<Longrightarrow>
   map_of (timers (reject_each xs e s)) h = None"
proof (induction xs e s rule: reject_each.induct)
  case (1 err m)
  then show ?case by simp
next
  case (2 i request rest err m)
  let ?s' = "nextTick (CallReject (p_reject request) err)
                     (case p_timeout request of None \<Rightarrow> m | Some h \<Rightarrow> clearTimeout h m)"
  have "map_of (timers ?s') h = None \<or> (\<exists>(i, request) \<in> set rest. p_timeout request = Some h)"
    using "2.prems"
    by (auto simp: nextTick_def clearTimeout_def delete_conv' split: option.splits)
  from "2.IH"[OF this] show ?case by simp
qed

lemma inv_clearAll: "mgr_inv m \<Longrightarrow> mgr_inv (clearAllRequests now m)"
  by (simp add: mgr_inv_def clearAllRequests_def Let_def reject_each_fields)

lemma reject_expired_inv:
  "mgr_inv s \<Longrightarrow> mgr_inv (snd (reject_expired ids now c s))"
proof (induction ids now c s rule: reject_expired.induct)
  case (1 now cleaned m)
  then show ?case by simp
next
  case (2 i ids now cleaned m)
  obtain b s' where r: "rejectRequest i (error_literal i ''Request expired'' 408 now) m = (b, s')"
    by (cases "rejectRequest i (error_literal i ''Request expired'' 408 now) m")
  from inv_reject[OF "2.prems", of i "error_literal i ''Request expired'' 408 now"] r
  have "mgr_inv s'" by simp
  from "2.IH"[OF r[symmetric] this] show ?case by (simp add: r)
qed

lemma inv_cleanup: "mgr_inv m \<Longrightarrow> mgr_inv (snd (cleanupExpiredRequests a now m))"
  by (simp add: cleanupExpiredRequests_def Let_def reject_expired_inv)

lemma reachable_inv: "mgr_reachable m \<Longrightarrow> mgr_inv m"
proof (induction rule: mgr_reachable.induct)
  case (r_new d)
  show ?case by (simp add: mgr_inv_def new_manager_def)
next
  case (r_ticks m)
  then show ?case by (simp add: mgr_inv_def run_ticks_def)
qed (simp_all add: inv_add inv_resolve inv_reject inv_fire inv_clearAll inv_cleanup)


lemma reachable_disposed_empty:
  "mgr_reachable m \<Longrightarrow> disposed m \<Longrightarrow> pendingRequests m = []"
  using reachable_inv by (simp add: mgr_inv_def)













lemma example_manager_eval:
  "addPendingRequest ''req-2'' 3 4 (Some 0) 1
     (addPendingRequest ''req-1'' 1 2 None 0 (new_manager None)) =
   \<lparr> pendingRequests =
       [(''req-1'', \<lparr> p_id = ''req-1'', p_timestamp = 0, p_resolve = 1, p_reject = 2,
                       p_timeout = Some 1 \<rparr>),
        (''req-2'', \<lparr> p_id = ''req-2'', p_timestamp = 1, p_resolve = 3, p_reject = 4,
                       p_timeout = None \<rparr>)],
     defaultTimeout = 30000, disposed = False, timers = [(1, ''req-1'', 30000)],
     nextTimer = 2, tickQueue = [], invoked = [] \<rparr>"
  by (simp add: addPendingRequest_def new_manager_def setTimeout_def)

text \<open>
  Claim C2. In every reachable manager, for an id that is tracked,
  \<open>resolveRequest\<close> returns true, removes the entry, clears its timeout and
  queues exactly one call of its resolve callback, which the next tick makes; a
  further \<open>resolveRequest\<close> or \<open>rejectRequest\<close> for the same id returns false and
  changes nothing. \<open>rejectRequest\<close> does the same with the reject callback. For an
  id that is not tracked both return false and change nothing.
\<close>

theorem resolve_reject_exactly_once:
  assumes "mgr_reachable m"
  shows "(\<forall>request. map_of (pendingRequests m) i = Some request \<longrightarrow>
           (case resolveRequest i response m of
              (found, m') \<Rightarrow>
                found \<and> pendingRequests m' = AList.delete i (pendingRequests m)
                \<and> map_of (pendingRequests m') i = None
                \<and> (\<forall>h. p_timeout request = Some h \<longrightarrow> map_of (timers m') h = None)
                \<and> tickQueue m' = tickQueue m @ [CallResolve (p_resolve request) response]
                \<and> invoked (run_ticks m') = invoked m @ tickQueue m @ [CallResolve (p_resolve request) response]
                \<and> resolveRequest i response_b m' = (False, m')
                \<and> rejectRequest i err_b m' = (False, m'))
         \<and> (case rejectRequest i err m of
              (found, m') \<Rightarrow>
                found \<and> pendingRequests m' = AList.delete i (pendingRequests m)
                \<and> map_of (pendingRequests m') i = None
                \<and> (\<forall>h. p_timeout request = Some h \<longrightarrow> map_of (timers m') h = None)
                \<and> tickQueue m' = tickQueue m @ [CallReject (p_reject request) err]
                \<and> invoked (run_ticks m') = invoked m @ tickQueue m @ [CallReject (p_reject request) err]
                \<and> resolveRequest i response_b m' = (False, m')
                \<and> rejectRequest i err_b m' = (False, m')))
       \<and> (map_of (pendingRequests m) i = None \<longrightarrow>
            resolveRequest i response m = (False, m) \<and> rejectRequest i err m = (False, m))"
proof -
  have untracked: "map_of (pendingRequests m) i = None \<longrightarrow>
            resolveRequest i response m = (False, m) \<and> rejectRequest i err m = (False, m)"
    by (simp add: resolveRequest_def rejectRequest_def)
  have tracked: "\<not> disposed m" if "map_of (pendingRequests m) i = Some request" for request
    using reachable_disposed_empty[OF assms] that by auto
  have gone: "map_of (AList.delete i (pendingRequests m)) i = None"
    by (simp add: delete_conv')
  show ?thesis
    using untracked tracked gone
    by (auto simp: resolveRequest_def rejectRequest_def nextTick_def run_ticks_def
          clearRequest_fields clearRequest_timer)
qed



theorem resolve_reject_exactly_once_witness:
  "mgr_reachable (addPendingRequest ''req-1'' 1 2 None 0 (new_manager None))
   \<and> map_of (pendingRequests (addPendingRequest ''req-1'' 1 2 None 0 (new_manager None))) ''req-1''
       = Some \<lparr> p_id = ''req-1'', p_timestamp = 0, p_resolve = 1, p_reject = 2, p_timeout = Some 1 \<rparr>
   \<and> fst (resolveRequest ''req-1'' (error_literal ''req-1'' ''boom'' 500 5)
            (addPendingRequest ''req-1'' 1 2 None 0 (new_manager None)))
   \<and> tickQueue (snd (resolveRequest ''req-1'' (error_literal ''req-1'' ''boom'' 500 5)
            (addPendingRequest ''req-1'' 1 2 None 0 (new_manager None))))
       = [CallResolve 1 (error_literal ''req-1'' ''boom'' 500 5)]
   \<and> fst (rejectRequest ''req-1'' (error_literal ''req-1'' ''boom'' 500 5)
            (addPendingRequest ''req-1'' 1 2 None 0 (new_manager None)))
   \<and> \<not> fst (rejectRequest ''req-2'' (error_literal ''req-2'' ''boom'' 500 5)
            (addPendingRequest ''req-1'' 1 2 None 0 (new_manager None)))"
proof -
  let ?m = "addPendingRequest ''req-1'' 1 2 None 0 (new_manager None)"
  have r: "mgr_reachable ?m" by (intro r_add r_new)
  have p: "map_of (pendingRequests ?m) ''req-1''
       = Some \<lparr> p_id = ''req-1'', p_timestamp = 0, p_resolve = 1, p_reject = 2, p_timeout = Some 1 \<rparr>"
    by (simp add: addPendingRequest_def new_manager_def setTimeout_def)
  have q: "map_of (pendingRequests ?m) ''req-2'' = None"
    by (simp add: addPendingRequest_def new_manager_def setTimeout_def)
  have t: "tickQueue ?m = []"
    by (simp add: addPendingRequest_def new_manager_def setTimeout_def)
  from resolve_reject_exactly_once[OF r, where i = "''req-1''"
           and response = "error_literal ''req-1'' ''boom'' 500 5"
           and err = "error_literal ''req-1'' ''boom'' 500 5"
           and response_b = "error_literal ''req-1'' ''boom'' 500 5"
           and err_b = "error_literal ''req-1'' ''boom'' 500 5"]
       resolve_reject_exactly_once[OF r, where i = "''req-2''"
           and response = "error_literal ''req-2'' ''boom'' 500 5"
           and err = "error_literal ''req-2'' ''boom'' 500 5"
           and response_b = "error_literal ''req-2'' ''boom'' 500 5"
           and err_b = "error_literal ''req-2'' ''boom'' 500 5"] r p q t
  show ?thesis by (simp add: split_beta)
qed

text \<open>
  Claim C5. In every reachable manager, \<open>clearAllRequests\<close> leaves the manager
  disposed with an empty table, queues one call of the reject callback for each
  entry that was pending, in order and with an error whose text is
  \<open>Connection closed\<close> and whose status is 503, clears the timeouts of those
  entries, and a second call changes nothing, so it queues no call.
\<close>

theorem clearAllRequests_rejects_each_once:
  assumes "mgr_reachable m"
  shows "(let m' = clearAllRequests now m;
              e = error_literal (if pendingRequests m = [] then [] else fst (last (pendingRequests m)))
                    ''Connection closed'' 503 now
          in disposed m' \<and> pendingRequests m' = [] \<and> getPendingCount m' = 0
             \<and> tickQueue m' =
                 tickQueue m @ map (\<lambda>(i, request). CallReject (p_reject request) e) (pendingRequests m)
             \<and> m_error e = Some ''Connection closed'' \<and> m_status e = Some 503
             \<and> invoked m' = invoked m
             \<and> invoked (run_ticks m') = invoked m @ tickQueue m'
             \<and> (\<forall>(i, request) \<in> set (pendingRequests m).
                   \<forall>h. p_timeout request = Some h \<longrightarrow> map_of (timers m') h = None)
             \<and> clearAllRequests now_b m' = m'
             \<and> tickQueue (clearAllRequests now_b m') = tickQueue m')"
proof (cases "disposed m")
  case True
  with reachable_disposed_empty[OF assms] show ?thesis
    by (simp add: clearAllRequests_def getPendingCount_def run_ticks_def error_literal_def)
next
  case False
  have t: "\<forall>(i, request) \<in> set (pendingRequests m).
             \<forall>h. p_timeout request = Some h \<longrightarrow>
               map_of (timers (reject_each (pendingRequests m) e
                                (m\<lparr>disposed := True, pendingRequests := []\<rparr>))) h = None" for e
    by (auto intro!: reject_each_timers)
  show ?thesis
    using False t
    by (simp add: clearAllRequests_def Let_def reject_each_fields getPendingCount_def
          run_ticks_def error_literal_def)
qed

theorem clearAllRequests_rejects_each_once_witness:
  "mgr_reachable (addPendingRequest ''req-2'' 3 4 (Some 0) 1
                    (addPendingRequest ''req-1'' 1 2 None 0 (new_manager None)))
   \<and> disposed (clearAllRequests 9
         (addPendingRequest ''req-2'' 3 4 (Some 0) 1
            (addPendingRequest ''req-1'' 1 2 None 0 (new_manager None))))
   \<and> tickQueue (clearAllRequests 9
         (addPendingRequest ''req-2'' 3 4 (Some 0) 1
            (addPendingRequest ''req-1'' 1 2 None 0 (new_manager None)))) =
       [CallReject 2 (error_literal ''req-2'' ''Connection closed'' 503 9),
        CallReject 4 (error_literal ''req-2'' ''Connection closed'' 503 9)]
   \<and> pendingRequests (clearAllRequests 9
         (addPendingRequest ''req-2'' 3 4 (Some 0) 1
            (addPendingRequest ''req-1'' 1 2 None 0 (new_manager None)))) = []"
proof -
  let ?m = "addPendingRequest ''req-2'' 3 4 (Some 0) 1
              (addPendingRequest ''req-1'' 1 2 None 0 (new_manager None))"
  have r: "mgr_reachable ?m" by (intro r_add r_new)
  from clearAllRequests_rejects_each_once[OF r, where now = 9 and now_b = 10] r
  show ?thesis
    unfolding example_manager_eval by (simp add: Let_def)
qed




















section \<open>Properties of the emulated response object\<close>


lemma emit_throws:
  "\<not> listeners_return ev ls \<Longrightarrow> snd (snd (emit ev ls)) \<noteq> None"
  by (induction ls) (auto simp: listeners_return_def split: prod.splits option.splits)

lemma emit_finish_fields:
  "finished (snd (emit_finish r)) = finished r"
  "res_disposed (snd (emit_finish r)) = res_disposed r"
  "res_responseSent (snd (emit_finish r)) = res_responseSent r"
  "headers (snd (emit_finish r)) = headers r"
  "statusCode (snd (emit_finish r)) = statusCode r"
  "res_body (snd (emit_finish r)) = res_body r"
  "res_correlationId (snd (emit_finish r)) = res_correlationId r"
  "res_instanceId (snd (emit_finish r)) = res_instanceId r"
  "headersSent (snd (emit_finish r)) = headersSent r"
  "res_emitted (snd (emit_finish r)) = res_emitted r @ [(''finish'', fst (emit ''finish'' (res_listeners r)))]"
  "fst (emit_finish r) = snd (snd (emit ''finish'' (res_listeners r)))"
  by (simp_all add: emit_finish_def split_beta)


lemma end_response_unfold:
  assumes "\<not> finished r" "\<not> res_disposed r" "\<not> res_responseSent r"
  shows "end_response B chunk now (r, w) =
     (let r1 = r\<lparr> res_responseSent := True \<rparr>;
          r2 = (if chunk \<noteq> JUndefined then r1\<lparr> res_body := res_body r1 @ [chunk] \<rparr> else r1);
          r3 = (if \<not> headersSent r2 then r2\<lparr> headersSent := True \<rparr> else r2);
          e = emit_finish (r3\<lparr> finished := True \<rparr>)
      in if fst e \<noteq> None then (fst e, snd e, w)
         else if wv_disposed w then (None, snd e, w)
         else (None, snd e, w\<lparr> posted := posted w @ [responseMessage B now (snd e)] \<rparr>))"
  using assms
  by (simp add: end_response_def Let_def postMessage_def split: prod.splits option.splits)






lemma end_response_live_throws:
  assumes "\<not> finished r" "\<not> res_disposed r" "\<not> res_responseSent r"
      and "\<not> listeners_return ''finish'' (res_listeners r)"
  shows "fst (end_response B chunk now (r, w)) \<noteq> None"
    and "snd (snd (end_response B chunk now (r, w))) = w"
  using emit_throws[OF assms(4)]
  by (simp_all add: end_response_unfold[OF assms(1-3)] Let_def emit_finish_fields)

text \<open>
  A listener of \<open>finish\<close> that throws: \<open>end\<close> throws what the listener threw, the
  object is finished, and nothing is posted.
\<close>

lemma end_throws_when_finish_listener_throws:
  "fst (end_response example_builtins (JStr ''ok'') 1
          (on ''finish'' (Foreign 7 (Some (ErrorObject ''boom''))) (new_response ''1'' ''A''),
           open_webview)) = Some (ErrorObject ''boom'')
   \<and> posted (snd (snd (end_response example_builtins (JStr ''ok'') 1
          (on ''finish'' (Foreign 7 (Some (ErrorObject ''boom''))) (new_response ''1'' ''A''),
           open_webview)))) = []
   \<and> finished (fst (snd (end_response example_builtins (JStr ''ok'') 1
          (on ''finish'' (Foreign 7 (Some (ErrorObject ''boom''))) (new_response ''1'' ''A''),
           open_webview))))"
  by (simp add: end_response_def on_def new_response_def open_webview_def emit_finish_def
        listener_outcome_def Let_def)




text \<open>
  Claim C6 holds of \<open>setHeader\<close>, and of \<open>removeHeader\<close> on a disposed object, but
  \<open>removeHeader\<close> does not look at \<open>headersSent\<close>: after \<open>writeHead\<close> has sent the
  headers it still deletes the header it is given. Here a header is set, the
  headers are sent, and \<open>removeHeader\<close> empties the table.
\<close>

theorem removeHeader_after_headers_sent:
  "headersSent (writeHead 200 None None (setHeader ''X-Trace'' ''1'' (new_response ''1'' ''A'')))
   \<and> \<not> res_disposed (writeHead 200 None None (setHeader ''X-Trace'' ''1'' (new_response ''1'' ''A'')))
   \<and> headers (writeHead 200 None None (setHeader ''X-Trace'' ''1'' (new_response ''1'' ''A'')))
       = [(''x-trace'', ''1'')]
   \<and> headers (removeHeader ''X-Trace''
         (writeHead 200 None None (setHeader ''X-Trace'' ''1'' (new_response ''1'' ''A'')))) = []
   \<and> headers (setHeader ''X-Other'' ''2''
         (writeHead 200 None None (setHeader ''X-Trace'' ''1'' (new_response ''1'' ''A''))))
       = [(''x-trace'', ''1'')]"
  by (simp add: removeHeader_def writeHead_def setHeader_def new_response_def toLowerCase_def
        lower_char_def)

lemma late_header_calls_that_are_ignored:
  "headersSent r \<or> res_disposed r \<Longrightarrow> setHeader name v r = r"
  "res_disposed r \<Longrightarrow> removeHeader name r = r"
  by (simp_all add: setHeader_def removeHeader_def)



section \<open>Properties of the transport server\<close>

lemma two_servers_eval:
  "two_servers =
     \<lparr> servers =
         [(0, \<lparr> listening = False, srv_listening = True, srv_disposed = False,
                srv_pendingResponses = [], messageHandlerLock = False,
                srv_instanceId = ''server_1_4fzzzxjyl'', srv_emitted = [EvListening] \<rparr>),
          (1, \<lparr> listening = False, srv_listening = True, srv_disposed = False,
                srv_pendingResponses = [], messageHandlerLock = False,
                srv_instanceId = ''server_2_k3j9x0q2m'', srv_emitted = [EvListening] \<rparr>)],
       responses = [], channel = \<lparr> wv_disposed = False, posted = [] \<rparr>,
       registered = Some 1, subscribers = [0, 1] \<rparr>"
  by (simp add: two_servers_def new_server_def listen_def empty_world_def)

lemma new_request_instanceId:
  "new_request (message\<lparr> m_instanceId := x \<rparr>) = new_request message"
  by (simp add: new_request_def)

lemma handleMessage_instanceId:
  "handleMessage self (message\<lparr> m_instanceId := x \<rparr>) outcome now w
     = handleMessage self message outcome now w"
  by (cases "map_of (servers w) self")
     (simp_all add: handleMessage_def isRequestMessage_def new_request_instanceId Let_def
        split: option.splits)

lemma sendErrorResponse_frame:
  "servers (sendErrorResponse self i e now w) = servers w"
  "responses (sendErrorResponse self i e now w) = responses w"
  "registered (sendErrorResponse self i e now w) = registered w"
  "subscribers (sendErrorResponse self i e now w) = subscribers w"
  by (simp_all add: sendErrorResponse_def Let_def split: option.splits sum.splits)

lemma handleMessage_handled:
  assumes "map_of (servers w) self = Some s" "isRequestMessage message"
      and "\<not> messageHandlerLock s" "\<not> srv_disposed s" "srv_listening s"
      and "\<not> (case registered w of None \<Rightarrow> False
               | Some registeredServer \<Rightarrow> registeredServer \<noteq> self \<and> \<not> srv_isDisposed registeredServer w)"
  shows "map_of (servers (handleMessage self message outcome now w)) self =
           Some (s\<lparr> srv_pendingResponses := Set_add (length (responses w)) (srv_pendingResponses s),
                    srv_emitted := srv_emitted s @ [EvRequest (new_request message) (length (responses w))] \<rparr>)"
    and "responses (handleMessage self message outcome now w) =
           responses w @ [(length (responses w),
                           once ''finish'' (Untrack self) (new_response (m_id message) (srv_instanceId s)))]"
  using assms
  by (simp_all add: handleMessage_def Let_def update_conv' sendErrorResponse_frame split: option.splits)

text \<open>
  The listener of \<open>finish\<close> that the handler registers: when the response object
  handed out for a request is ended, it leaves the in-flight set of its server, and
  one envelope is posted.
\<close>

lemma end_stored_untracks:
  "map_of (servers (snd (end_stored example_builtins 0 (JStr ''ok'') 6
                      (handleMessage 1 example_request None 5 two_servers)))) 1 =
     Some \<lparr> listening = False, srv_listening = True, srv_disposed = False,
            srv_pendingResponses = [], messageHandlerLock = False,
            srv_instanceId = ''server_2_k3j9x0q2m'',
            srv_emitted = [EvListening, EvRequest (new_request example_request) 0] \<rparr>
   \<and> length (posted (channel (snd (end_stored example_builtins 0 (JStr ''ok'') 6
                      (handleMessage 1 example_request None 5 two_servers))))) = 1
   \<and> fst (end_stored example_builtins 0 (JStr ''ok'') 6
            (handleMessage 1 example_request None 5 two_servers)) = None"
  by (simp add: two_servers_eval handleMessage_def isRequestMessage_def example_request_def
        srv_isDisposed_def Set_add_def Let_def end_stored_def end_response_def once_def
        new_response_def emit_finish_def listener_outcome_def postMessage_def)

text \<open>
  Claim C1, as amended. The message handler of the server never reads the
  \<open>instanceId\<close> of an envelope: it does the same whatever the envelope carries
  there. A well-formed \<open>Request\<close> is ignored exactly when the handler lock is held,
  the server is disposed or not listening, or another server that is not disposed
  is the one registered for the webview. Otherwise, also when the request carries
  the instance id of another server, the handler builds the request and response
  objects, adds the response to the in-flight set and emits \<open>request\<close>.
\<close>

theorem request_handled_whatever_instanceId:
  "handleMessage self (message\<lparr> m_instanceId := x \<rparr>) outcome now w
     = handleMessage self message outcome now w
   \<and> (\<forall>s. map_of (servers w) self = Some s \<and> isRequestMessage message \<longrightarrow>
         (if messageHandlerLock s \<or> srv_disposed s \<or> \<not> srv_listening s
             \<or> (\<exists>other. registered w = Some other \<and> other \<noteq> self \<and> \<not> srv_isDisposed other w)
          then handleMessage self message outcome now w = w
          else map_of (servers (handleMessage self message outcome now w)) self =
                 Some (s\<lparr> srv_pendingResponses :=
                             Set_add (length (responses w)) (srv_pendingResponses s),
                          srv_emitted := srv_emitted s @
                             [EvRequest (new_request message) (length (responses w))] \<rparr>)
               \<and> responses (handleMessage self message outcome now w) =
                   responses w @ [(length (responses w),
                     once ''finish'' (Untrack self) (new_response (m_id message) (srv_instanceId s)))]))"
proof -
  have ignored: "handleMessage self message outcome now w = w"
    if "map_of (servers w) self = Some s"
       "messageHandlerLock s \<or> srv_disposed s \<or> \<not> srv_listening s
             \<or> (\<exists>other. registered w = Some other \<and> other \<noteq> self \<and> \<not> srv_isDisposed other w)" for s
    using that by (auto simp: handleMessage_def)
  have handled: "map_of (servers (handleMessage self message outcome now w)) self =
                 Some (s\<lparr> srv_pendingResponses :=
                             Set_add (length (responses w)) (srv_pendingResponses s),
                          srv_emitted := srv_emitted s @
                             [EvRequest (new_request message) (length (responses w))] \<rparr>)
               \<and> responses (handleMessage self message outcome now w) =
                   responses w @ [(length (responses w),
                     once ''finish'' (Untrack self) (new_response (m_id message) (srv_instanceId s)))]"
    if "map_of (servers w) self = Some s" "isRequestMessage message"
       "\<not> (messageHandlerLock s \<or> srv_disposed s \<or> \<not> srv_listening s
             \<or> (\<exists>other. registered w = Some other \<and> other \<noteq> self \<and> \<not> srv_isDisposed other w))" for s
  proof -
    have g: "\<not> (case registered w of None \<Rightarrow> False
               | Some registeredServer \<Rightarrow> registeredServer \<noteq> self \<and> \<not> srv_isDisposed registeredServer w)"
      using that(3) by (auto split: option.splits)
    from handleMessage_handled[OF that(1,2) _ _ _ g] that(3) show ?thesis by blast
  qed
  show ?thesis
    using handleMessage_instanceId ignored handled by presburger
qed

theorem request_handled_whatever_instanceId_witness:
  "map_of (servers two_servers) 1 =
     Some \<lparr> listening = False, srv_listening = True, srv_disposed = False,
            srv_pendingResponses = [], messageHandlerLock = False,
            srv_instanceId = ''server_2_k3j9x0q2m'', srv_emitted = [EvListening] \<rparr>
   \<and> isRequestMessage example_request
   \<and> handleMessage 1 (example_request\<lparr> m_instanceId := Some ''server_2_k3j9x0q2m'' \<rparr>) None 5 two_servers
       = handleMessage 1 example_request None 5 two_servers
   \<and> map_of (servers (handleMessage 1 example_request None 5 two_servers)) 1 =
       Some \<lparr> listening = False, srv_listening = True, srv_disposed = False,
              srv_pendingResponses = [0], messageHandlerLock = False,
              srv_instanceId = ''server_2_k3j9x0q2m'',
              srv_emitted = [EvListening, EvRequest (new_request example_request) 0] \<rparr>
   \<and> handleMessage 0 example_request None 5 two_servers = two_servers"
proof -
  have s1: "map_of (servers two_servers) 1 =
     Some \<lparr> listening = False, srv_listening = True, srv_disposed = False,
            srv_pendingResponses = [], messageHandlerLock = False,
            srv_instanceId = ''server_2_k3j9x0q2m'', srv_emitted = [EvListening] \<rparr>"
    and s0: "map_of (servers two_servers) 0 =
     Some \<lparr> listening = False, srv_listening = True, srv_disposed = False,
            srv_pendingResponses = [], messageHandlerLock = False,
            srv_instanceId = ''server_1_4fzzzxjyl'', srv_emitted = [EvListening] \<rparr>"
    and reg: "registered two_servers = Some 1" and rs: "responses two_servers = []"
    and d1: "\<not> srv_isDisposed 1 two_servers"
    by (simp_all add: two_servers_eval srv_isDisposed_def)
  have q: "isRequestMessage example_request"
    by (simp add: isRequestMessage_def example_request_def)
  from request_handled_whatever_instanceId[where self = 1 and message = example_request
         and x = "Some ''server_2_k3j9x0q2m''" and outcome = None and now = 5 and w = two_servers]
       request_handled_whatever_instanceId[where self = 0 and message = example_request
         and x = "Some ''server_2_k3j9x0q2m''" and outcome = None and now = 5 and w = two_servers]
  show ?thesis
    using s1 s0 reg rs d1 q by (simp add: Set_add_def)
qed

text \<open>
  Claim C1 as stated fails where two servers share the webview. The request carries
  the instance id of server \<open>0\<close>; server \<open>1\<close>, whose instance id is another, is
  the one registered for the webview and handles it: it stores a response object,
  adds it to its in-flight set and emits \<open>request\<close>.
\<close>

theorem foreign_instance_request_is_handled:
  "m_instanceId example_request = Some ''server_1_4fzzzxjyl''
   \<and> isRequestMessage example_request
   \<and> getInstanceId 1 two_servers = ''server_2_k3j9x0q2m''
   \<and> map_of (servers (handleMessage 1 example_request None 5 two_servers)) 1 =
       Some \<lparr> listening = False, srv_listening = True, srv_disposed = False,
              srv_pendingResponses = [0], messageHandlerLock = False,
              srv_instanceId = ''server_2_k3j9x0q2m'',
              srv_emitted = [EvListening, EvRequest (new_request example_request) 0] \<rparr>
   \<and> responses (handleMessage 1 example_request None 5 two_servers) =
       [(0, once ''finish'' (Untrack 1) (new_response ''17-k3j9x0q2m'' ''server_2_k3j9x0q2m''))]"
  by (simp add: two_servers_eval handleMessage_def isRequestMessage_def example_request_def
        getInstanceId_def srv_isDisposed_def Set_add_def Let_def)

section \<open>Properties of the client\<close>

lemma two_clients_eval:
  "two_clients =
     \<lparr> clients =
         [(0, \<lparr> c_disposed = False, c_instanceId = ''A'', c_baseUrl = [],
                c_correlationManager =
                  \<lparr> pendingRequests =
                      [(''17-k3j9x0q2m'', \<lparr> p_id = ''17-k3j9x0q2m'', p_timestamp = 1, p_resolve = 10, p_reject = 11,
                                 p_timeout = Some 1 \<rparr>)],
                    defaultTimeout = 30000, disposed = False,
                    timers = [(1, ''17-k3j9x0q2m'', 30000)], nextTimer = 2, tickQueue = [], invoked = [] \<rparr>,
                c_pendingRequests = [''17-k3j9x0q2m''] \<rparr>),
          (1, \<lparr> c_disposed = False, c_instanceId = ''B'', c_baseUrl = [],
                c_correlationManager =
                  \<lparr> pendingRequests =
                      [(''18-4fzzzxjyl'', \<lparr> p_id = ''18-4fzzzxjyl'', p_timestamp = 2, p_resolve = 20, p_reject = 21,
                                 p_timeout = Some 1 \<rparr>)],
                    defaultTimeout = 30000, disposed = False,
                    timers = [(1, ''18-4fzzzxjyl'', 30000)], nextTimer = 2, tickQueue = [], invoked = [] \<rparr>,
                c_pendingRequests = [''18-4fzzzxjyl''] \<rparr>)],
       globalClientRegistry = [0, 1], primaryClient = Some 0, window_listeners = [0, 1],
       sent =
         [\<lparr> m_id = ''17-k3j9x0q2m'', m_type = TRequest, m_method = Some ''GET'', m_url = Some ''/x'',
            m_headers = None, m_body = JUndefined, m_status = None, m_error = None,
            m_stack = None, m_instanceId = Some ''A'', m_timestamp = 1 \<rparr>,
          \<lparr> m_id = ''18-4fzzzxjyl'', m_type = TRequest, m_method = Some ''GET'', m_url = Some ''/x'',
            m_headers = None, m_body = JUndefined, m_status = None, m_error = None,
            m_stack = None, m_instanceId = Some ''B'', m_timestamp = 2 \<rparr>],
       closures = [(10, 0, ''17-k3j9x0q2m''), (11, 0, ''17-k3j9x0q2m''),
                   (20, 1, ''18-4fzzzxjyl''), (21, 1, ''18-4fzzzxjyl'')] \<rparr>"
  by (simp add: two_clients_def new_client_def fetch_def empty_page_def no_options_def
        Set_add_def client_isDisposed_def resolveUrl_def startsWith_def new_manager_def
        addPendingRequest_def setTimeout_def Let_def)

text \<open>
  Claim C10. On a response whose body is \<open>undefined\<close> or \<open>null\<close>, \<open>json()\<close> rejects
  with the error \<open>Response body is empty\<close> and \<open>text()\<close> resolves to the empty
  string; and neither method, on any response, changes the object, its body
  included.
\<close>

theorem empty_body_json_rejects_text_empty:
  "(cr_body r = JUndefined \<or> cr_body r = JNull \<longrightarrow>
      fst (json B r) = Inl ''Response body is empty'' \<and> fst (text_of B r) = Inr [])
   \<and> snd (json B r) = r \<and> snd (text_of B r) = r
   \<and> cr_body (snd (json B r)) = cr_body r \<and> cr_body (snd (text_of B r)) = cr_body r"
  by (auto simp: json_def text_of_def split: option.splits)

theorem empty_body_json_rejects_text_empty_witness:
  "cr_body (new_client_response (example_response None) ''/x'') = JNull
   \<and> fst (json example_builtins (new_client_response (example_response None) ''/x''))
       = Inl ''Response body is empty''
   \<and> fst (text_of example_builtins (new_client_response (example_response None) ''/x'')) = Inr []
   \<and> cr_body (snd (json example_builtins (new_client_response (example_response None) ''/x'')))
       = JNull"
proof -
  have b: "cr_body (new_client_response (example_response None) ''/x'') = JNull"
    by (simp add: new_client_response_def example_response_def)
  from empty_body_json_rejects_text_empty[where B = example_builtins
         and r = "new_client_response (example_response None) ''/x''"] b
  show ?thesis by simp
qed

text \<open>
  Claim C8, as amended. When an envelope carries an \<open>instanceId\<close> that is a
  non-empty string other than the client's own instance id, the client's message
  handler returns at once: the page, and with it the client's correlation manager,
  is unchanged.
\<close>

theorem foreign_instance_envelope_ignored:
  assumes "map_of (clients w) self = Some c"
      and "m_instanceId message = Some i" "i \<noteq> []" "i \<noteq> c_instanceId c"
  shows "early_return self message w
       \<and> client_handleMessage self message w = w
       \<and> messageHandler self message w = w
       \<and> map_of (clients (messageHandler self message w)) self = Some c"
  using assms
  by (simp add: early_return_def client_handleMessage_def messageHandler_def truthy_def)

theorem foreign_instance_envelope_ignored_witness:
  "m_instanceId (example_response (Some ''B'')) = Some ''B''
   \<and> c_instanceId \<lparr> c_disposed = False, c_instanceId = ''A'', c_baseUrl = [],
                      c_correlationManager = manager_of 0 two_clients,
                      c_pendingRequests = [''17-k3j9x0q2m''] \<rparr> = ''A''
   \<and> messageHandler 0 (example_response (Some ''B'')) two_clients = two_clients
   \<and> getPendingCount (manager_of 0 (messageHandler 0 (example_response (Some ''B'')) two_clients)) = 1"
proof -
  have c: "map_of (clients two_clients) 0 =
           Some \<lparr> c_disposed = False, c_instanceId = ''A'', c_baseUrl = [],
                  c_correlationManager = manager_of 0 two_clients,
                  c_pendingRequests = [''17-k3j9x0q2m''] \<rparr>"
    by (simp add: two_clients_eval manager_of_def)
  have i: "m_instanceId (example_response (Some ''B'')) = Some ''B''"
    by (simp add: example_response_def)
  have n: "getPendingCount (manager_of 0 two_clients) = 1"
    by (simp add: two_clients_eval manager_of_def getPendingCount_def)
  from foreign_instance_envelope_ignored[OF c i] n i
  show ?thesis by simp
qed

text \<open>
  Claim C8 as stated fails on an envelope whose \<open>instanceId\<close> is there and is the
  empty string: the test of the source takes it for absent. Client \<open>0\<close>, the
  primary client, whose instance id is \<open>A\<close>, forwards such a response to its
  correlation manager, which resolves the pending request.
\<close>

theorem empty_instance_id_is_forwarded:
  "m_instanceId (example_response (Some [])) = Some []
   \<and> getPendingCount (manager_of 0 two_clients) = 1
   \<and> getPendingCount (manager_of 0 (messageHandler 0 (example_response (Some [])) two_clients)) = 0
   \<and> tickQueue (manager_of 0 (messageHandler 0 (example_response (Some [])) two_clients)) =
       [CallResolve 10 (example_response (Some []))]"
  by (simp add: two_clients_eval manager_of_def getPendingCount_def messageHandler_def
        client_handleMessage_def early_return_def truthy_def client_isDisposed_def forward_def
        isResponseMessage_def example_response_def resolveRequest_def clearRequest_def
        clearTimeout_def nextTick_def Let_def)

lemma length_update_present:
  "map_of al k = Some v0 \<Longrightarrow> length (AList.update k v al) = length al"
  by (induction al) (auto split: if_splits)

lemma isDisposed_update_live:
  "\<not> c_disposed c' \<Longrightarrow> map_of (clients w) self = Some c \<Longrightarrow> \<not> c_disposed c \<Longrightarrow>
   client_isDisposed k (w\<lparr> clients := AList.update self c' (clients w) \<rparr>) = client_isDisposed k w"
  by (simp add: client_isDisposed_def update_conv')

lemma page_inv_update_live:
  assumes "page_inv w" "map_of (clients w) self = Some c" "c_disposed c' = c_disposed c"
  shows "page_inv (w\<lparr> clients := AList.update self c' (clients w) \<rparr>)"
proof -
  have len: "length (AList.update self c' (clients w)) = length (clients w)"
    using assms(2) by (rule length_update_present)
  have d: "client_isDisposed k (w\<lparr> clients := AList.update self c' (clients w) \<rparr>) = client_isDisposed k w" for k
    using assms(2,3) by (simp add: client_isDisposed_def update_conv')
  show ?thesis
    using assms unfolding page_inv_def d
    by (auto simp: len update_conv' split: option.splits if_splits)
qed

lemma page_inv_new_client: "page_inv w \<Longrightarrow> page_inv (snd (new_client i b g w))"
  unfolding page_inv_def
  by (auto simp: new_client_def Let_def Set_add_def client_isDisposed_def map_add_def
        split: option.splits if_splits)

lemma page_inv_message: "page_inv w \<Longrightarrow> page_inv (messageHandler self message w)"
proof -
  assume a: "page_inv w"
  show ?thesis
  proof (cases "map_of (clients w) self")
    case None
    then show ?thesis using a by (simp add: messageHandler_def client_handleMessage_def)
  next
    case (Some c)
    from page_inv_update_live[OF a Some, of "c\<lparr> c_correlationManager := forward message (c_correlationManager c) \<rparr>"]
    show ?thesis using a Some by (simp add: messageHandler_def client_handleMessage_def)
  qed
qed

lemma page_inv_fetch: "page_inv w \<Longrightarrow> fetch self url opts cid res rej pf now w = Inr w' \<Longrightarrow> page_inv w'"
proof -
  assume a: "page_inv w" and f: "fetch self url opts cid res rej pf now w = Inr w'"
  from f obtain c where c: "map_of (clients w) self = Some c" "\<not> c_disposed c"
    by (auto simp: fetch_def split: option.splits if_splits)
  from f c obtain c' where w': "w' = w\<lparr> clients := AList.update self c' (clients w), sent := sent w',
                                     closures := closures w' \<rparr>"
      and d: "c_disposed c' = c_disposed c"
    by (cases pf) (auto simp: fetch_def Let_def)
  have "page_inv (w\<lparr> clients := AList.update self c' (clients w) \<rparr>)"
    by (rule page_inv_update_live[OF a c(1) d])
  then show ?thesis
    by (subst w') (auto simp: page_inv_def client_isDisposed_def split: option.splits)
qed


lemma page_invI:
  assumes "\<forall>k. length cs \<le> k \<longrightarrow> map_of cs k = None"
      and "\<forall>k c. map_of cs k = Some c \<and> \<not> c_disposed c \<longrightarrow> k \<in> set reg"
      and "(case prim of
              None \<Rightarrow> (\<forall>k c. map_of cs k = Some c \<longrightarrow> c_disposed c)
            | Some p \<Rightarrow> \<not> (case map_of cs p of None \<Rightarrow> True | Some c \<Rightarrow> c_disposed c))"
      and "clients w = cs" "globalClientRegistry w = reg" "primaryClient w = prim"
  shows "page_inv w"
  using assms unfolding page_inv_def client_isDisposed_def by (auto split: option.splits)

lemma page_inv_dispose: "page_inv w \<Longrightarrow> page_inv (client_dispose self now w)"
proof -
  assume a: "page_inv w"
  show ?thesis
  proof (cases "map_of (clients w) self")
    case None
    then show ?thesis using a by (simp add: client_dispose_def)
  next
    case (Some c)
    show ?thesis
    proof (cases "c_disposed c")
      case True
      then show ?thesis using a Some by (simp add: client_dispose_def)
    next
      case False
      let ?c1 = "c\<lparr> c_disposed := True \<rparr>"
      let ?cs1 = "AList.update self ?c1 (clients w)"
      let ?reg = "removeAll self (globalClientRegistry w)"
      let ?w1 = "w\<lparr> clients := ?cs1, globalClientRegistry := ?reg \<rparr>"
      let ?c2 = "?c1\<lparr> c_correlationManager := clearAllRequests now (c_correlationManager ?c1),
                         c_pendingRequests := [] \<rparr>"
      let ?prim = "(if primaryClient w = Some self
                    then find (\<lambda>k. \<not> client_isDisposed k ?w1) ?reg else primaryClient w)"
      have res: "client_dispose self now w =
                 w\<lparr> clients := AList.update self ?c2 ?cs1, globalClientRegistry := ?reg,
                    primaryClient := ?prim,
                    window_listeners := removeAll self (window_listeners w) \<rparr>"
        using Some False by (simp add: client_dispose_def Let_def)
      have len: "length (AList.update self ?c2 ?cs1) = length (clients w)"
        using Some by (simp add: length_update_present[where ?v0.0 = ?c1] length_update_present[where ?v0.0 = c] update_conv')
      have m: "map_of (AList.update self ?c2 ?cs1) k =
               (if k = self then Some ?c2 else map_of (clients w) k)" for k
        by (simp add: update_conv')
      have dis1: "client_isDisposed k ?w1 = (k = self \<or> client_isDisposed k w)" for k
        by (simp add: client_isDisposed_def update_conv')
      have i1: "\<forall>k. length (AList.update self ?c2 ?cs1) \<le> k \<longrightarrow> map_of (AList.update self ?c2 ?cs1) k = None"
        using a Some unfolding len m by (auto simp: page_inv_def)
      have i2: "\<forall>k c'. map_of (AList.update self ?c2 ?cs1) k = Some c' \<and> \<not> c_disposed c' \<longrightarrow> k \<in> set ?reg"
        using a unfolding m by (auto simp: page_inv_def)
      have i3: "(case ?prim of
                   None \<Rightarrow> (\<forall>k c'. map_of (AList.update self ?c2 ?cs1) k = Some c' \<longrightarrow> c_disposed c')
                 | Some p \<Rightarrow> \<not> (case map_of (AList.update self ?c2 ?cs1) p of None \<Rightarrow> True | Some c' \<Rightarrow> c_disposed c'))"
      proof (cases "primaryClient w = Some self")
        case True
        show ?thesis
        proof (cases "find (\<lambda>k. \<not> client_isDisposed k ?w1) ?reg")
          case None
          then have all: "\<forall>k \<in> set ?reg. client_isDisposed k ?w1"
            by (auto simp: find_None_iff)
          have "c_disposed c'" if "map_of (AList.update self ?c2 ?cs1) k = Some c'" for k c'
          proof (cases "k = self")
            case True
            from that have "Some ?c2 = Some c'" unfolding m using True by simp
            then have "c' = ?c2" by simp
            then show ?thesis by simp
          next
            case ks: False
            from that have mk: "map_of (clients w) k = Some c'" unfolding m using ks by simp
            show ?thesis
            proof (rule ccontr)
              assume "\<not> c_disposed c'"
              with a mk have "k \<in> set (globalClientRegistry w)" by (auto simp: page_inv_def)
              with ks have "k \<in> set ?reg" by simp
              with all have "client_isDisposed k ?w1" by blast
              then have "k = self \<or> client_isDisposed k w" unfolding dis1 .
              with ks mk \<open>\<not> c_disposed c'\<close> show False
                by (simp add: client_isDisposed_def)
            qed
          qed
          with True None show ?thesis by (simp del: update_last)
        next
          case (Some p)
          then have "\<not> client_isDisposed p ?w1"
            using find_Some_iff[of "\<lambda>k. \<not> client_isDisposed k ?w1" ?reg p] by blast
          then have "\<not> (p = self \<or> client_isDisposed p w)" unfolding dis1 .
          then have "p \<noteq> self" "\<not> client_isDisposed p w" by simp_all
          then show ?thesis using True Some unfolding m
            by (simp add: client_isDisposed_def)
        qed
      next
        case np: False
        show ?thesis
        proof (cases "primaryClient w")
          case None
          with a have "\<forall>k c. map_of (clients w) k = Some c \<longrightarrow> c_disposed c"
            by (simp add: page_inv_def)
          with \<open>map_of (clients w) self = Some c\<close> False show ?thesis by blast
        next
          case (Some p)
          with np have "p \<noteq> self" by simp
          moreover from a Some have "\<not> client_isDisposed p w" by (simp add: page_inv_def)
          ultimately show ?thesis using Some np unfolding m by (simp add: client_isDisposed_def)
        qed
      qed
      show ?thesis
        by (rule page_invI[OF i1 i2 i3]) (simp_all add: res)
    qed
  qed
qed

lemma page_inv_same_disposed:
  assumes "page_inv w" "length cs = length (clients w)"
      and "\<And>k. map_option c_disposed (map_of cs k) = map_option c_disposed (map_of (clients w) k)"
  shows "page_inv (w\<lparr> clients := cs \<rparr>)"
proof -
  have n: "map_of cs k = None \<longleftrightarrow> map_of (clients w) k = None" for k
    using assms(3)[of k] by (metis map_option_is_None)
  have d: "\<exists>c0. map_of (clients w) k = Some c0 \<and> c_disposed c0 = c_disposed c"
    if "map_of cs k = Some c" for k c
    using assms(3)[of k] that by (cases "map_of (clients w) k") auto
  have e: "\<exists>c. map_of cs k = Some c \<and> c_disposed c = c_disposed c0"
    if "map_of (clients w) k = Some c0" for k c0
    using assms(3)[of k] that by (cases "map_of cs k") auto
  have a1: "\<forall>k. length cs \<le> k \<longrightarrow> map_of cs k = None"
    using assms(1,2) n by (simp add: page_inv_def)
  have a2: "\<forall>k c. map_of cs k = Some c \<and> \<not> c_disposed c \<longrightarrow> k \<in> set (globalClientRegistry w)"
  proof (intro allI impI)
    fix k c
    assume h: "map_of cs k = Some c \<and> \<not> c_disposed c"
    then obtain c0 where "map_of (clients w) k = Some c0" "\<not> c_disposed c0"
      using d by metis
    then show "k \<in> set (globalClientRegistry w)"
      using assms(1) unfolding page_inv_def by blast
  qed
  have a3: "case primaryClient w of
              None \<Rightarrow> \<forall>k c. map_of cs k = Some c \<longrightarrow> c_disposed c
            | Some p \<Rightarrow> \<not> client_isDisposed p (w\<lparr> clients := cs \<rparr>)"
  proof (cases "primaryClient w")
    case None
    then have "\<forall>k c. map_of (clients w) k = Some c \<longrightarrow> c_disposed c"
      using assms(1) by (simp add: page_inv_def)
    then show ?thesis using None d by (simp, metis)
  next
    case (Some p)
    then have "\<not> client_isDisposed p w"
      using assms(1) by (simp add: page_inv_def)
    then obtain c0 where c0: "map_of (clients w) p = Some c0" "\<not> c_disposed c0"
      by (auto simp: client_isDisposed_def split: option.splits)
    from e[OF c0(1)] c0(2) show ?thesis
      using Some by (auto simp: client_isDisposed_def)
  qed
  show ?thesis
    using a1 a2 a3 unfolding page_inv_def by (simp split: option.splits)
qed

lemma run_closures_same:
  "length (run_closures q cl cs) = length cs
   \<and> (\<forall>k. map_option c_disposed (map_of (run_closures q cl cs) k) = map_option c_disposed (map_of cs k))"
proof (induction q arbitrary: cs)
  case Nil
  show ?case by simp
next
  case (Cons c rest)
  let ?cs = "(case map_of cl (callback_of c) of
          None \<Rightarrow> cs
        | Some (owner, correlationId) \<Rightarrow>
            (case map_of cs owner of
               None \<Rightarrow> cs
             | Some x \<Rightarrow>
                 AList.update owner
                   (x\<lparr> c_pendingRequests := removeAll correlationId (c_pendingRequests x) \<rparr>) cs))"
  have s: "length ?cs = length cs
     \<and> (\<forall>k. map_option c_disposed (map_of ?cs k) = map_option c_disposed (map_of cs k))"
    by (auto simp: length_update_present update_conv' split: option.splits)
  show ?case
    using Cons.IH[of ?cs] s by simp
qed

lemma page_inv_tick: "page_inv w \<Longrightarrow> page_inv (client_tick self w)"
proof -
  assume a: "page_inv w"
  show ?thesis
  proof (cases "map_of (clients w) self")
    case None
    then show ?thesis using a by (simp add: client_tick_def)
  next
    case (Some c)
    let ?cs = "AList.update self (c\<lparr> c_correlationManager := run_ticks (c_correlationManager c) \<rparr>) (clients w)"
    have s: "length ?cs = length (clients w)"
      "\<And>k. map_option c_disposed (map_of ?cs k) = map_option c_disposed (map_of (clients w) k)"
      using Some by (simp_all add: length_update_present update_conv')
    have "page_inv (w\<lparr> clients := run_closures (tickQueue (c_correlationManager c)) (closures w) ?cs \<rparr>)"
      by (rule page_inv_same_disposed[OF a]) (simp_all only: run_closures_same s)
    then show ?thesis using Some by (simp add: client_tick_def)
  qed
qed

lemma page_inv_timeout: "page_inv w \<Longrightarrow> page_inv (client_timeout self h now w)"
proof -
  assume a: "page_inv w"
  show ?thesis
  proof (cases "map_of (clients w) self")
    case None
    then show ?thesis using a by (simp add: client_timeout_def)
  next
    case (Some c)
    from page_inv_update_live[OF a Some, of "c\<lparr> c_correlationManager := fire_timer h now (c_correlationManager c) \<rparr>"]
    show ?thesis using Some by (simp add: client_timeout_def)
  qed
qed

lemma page_reachable_inv: "page_reachable w \<Longrightarrow> page_inv w"
proof (induction rule: page_reachable.induct)
  case p_empty
  show ?case by (simp add: page_inv_def empty_page_def)
qed (simp_all add: page_inv_new_client page_inv_fetch page_inv_message page_inv_dispose
       page_inv_tick page_inv_timeout)

text \<open>
  Claim C9. On every page that can arise, for an envelope without an instance id:
  a client other than the primary client returns at once whenever the primary
  client is not disposed; a client that gets past its early returns is the primary
  client; and the primary client, when not disposed, passes the envelope on to its
  correlation manager.
\<close>

theorem untagged_envelope_only_primary_forwards:
  assumes "page_reachable w" "\<not> truthy (m_instanceId message)"
  shows "(\<forall>p. primaryClient w = Some p \<and> p \<noteq> self \<and> \<not> client_isDisposed p w \<longrightarrow>
            early_return self message w \<and> client_handleMessage self message w = w
            \<and> messageHandler self message w = w)
       \<and> (\<not> early_return self message w \<longrightarrow> primaryClient w = Some self)
       \<and> (\<forall>c. primaryClient w = Some self \<and> map_of (clients w) self = Some c \<and> \<not> c_disposed c \<longrightarrow>
            \<not> early_return self message w
            \<and> messageHandler self message w =
                w\<lparr> clients := AList.update self
                      (c\<lparr> c_correlationManager := forward message (c_correlationManager c) \<rparr>)
                      (clients w) \<rparr>)"
proof -
  have inv: "page_inv w" using assms(1) by (rule page_reachable_inv)
  have a: "early_return self message w \<and> client_handleMessage self message w = w
            \<and> messageHandler self message w = w"
    if "primaryClient w = Some p" "p \<noteq> self" "\<not> client_isDisposed p w" for p
    using that assms(2)
    by (auto simp: early_return_def client_handleMessage_def messageHandler_def split: option.splits)
  have b: "primaryClient w = Some self" if "\<not> early_return self message w"
  proof -
    from that obtain c where c: "map_of (clients w) self = Some c" "\<not> c_disposed c"
      by (auto simp: early_return_def split: option.splits)
    show ?thesis
    proof (cases "primaryClient w")
      case None
      with inv c show ?thesis by (auto simp: page_inv_def)
    next
      case (Some p)
      with inv have "\<not> client_isDisposed p w" by (simp add: page_inv_def)
      with that Some c assms(2) show ?thesis
        by (auto simp: early_return_def split: option.splits)
    qed
  qed
  have c: "\<not> early_return self message w
            \<and> messageHandler self message w =
                w\<lparr> clients := AList.update self
                      (c\<lparr> c_correlationManager := forward message (c_correlationManager c) \<rparr>)
                      (clients w) \<rparr>"
    if "primaryClient w = Some self" "map_of (clients w) self = Some c" "\<not> c_disposed c" for c
    using that assms(2)
    by (simp add: early_return_def client_handleMessage_def messageHandler_def client_isDisposed_def)
  from a b c show ?thesis by blast
qed

theorem untagged_envelope_only_primary_forwards_witness:
  "page_reachable two_clients
   \<and> \<not> truthy (m_instanceId (example_response None))
   \<and> primaryClient two_clients = Some 0
   \<and> \<not> client_isDisposed 0 two_clients
   \<and> messageHandler 1 (example_response None) two_clients = two_clients
   \<and> getPendingCount (manager_of 0 (messageHandler 0 (example_response None) two_clients)) = 0
   \<and> getPendingCount (manager_of 1 (messageHandler 1 (example_response None) two_clients)) = 1
   \<and> page_reachable (client_tick 0 (messageHandler 0 (example_response None) two_clients))
   \<and> invoked (manager_of 0 (client_tick 0 (messageHandler 0 (example_response None) two_clients)))
       = [CallResolve 10 (example_response None)]
   \<and> messageHandler 1 (example_response None)
         (client_tick 0 (messageHandler 0 (example_response None) two_clients))
       = client_tick 0 (messageHandler 0 (example_response None) two_clients)"
proof -
  let ?w1 = "snd (new_client (Some ''B'') None ''client_2_b''
                (snd (new_client (Some ''A'') None ''client_1_a'' empty_page)))"
  have r1: "page_reachable ?w1" by (intro p_new p_empty)
  obtain w2 where f1: "fetch 0 ''/x'' no_options ''17-k3j9x0q2m'' 10 11 None 1 ?w1 = Inr w2"
    by (simp add: fetch_def new_client_def empty_page_def Set_add_def Let_def)
  obtain w3 where f2: "fetch 1 ''/x'' no_options ''18-4fzzzxjyl'' 20 21 None 2 w2 = Inr w3"
    using f1 by (auto simp: fetch_def new_client_def empty_page_def Set_add_def Let_def update_conv')
  have w3: "two_clients = w3"
    by (simp only: two_clients_def f1 f2 sum.case)
  have r: "page_reachable two_clients"
    unfolding w3 by (rule p_fetch[OF p_fetch[OF r1 f1] f2])
  have u: "\<not> truthy (m_instanceId (example_response None))"
    by (simp add: truthy_def example_response_def)
  have p: "primaryClient two_clients = Some 0" "\<not> client_isDisposed 0 two_clients"
    by (simp_all add: two_clients_eval client_isDisposed_def)
  have c: "map_of (clients two_clients) 0 =
           Some \<lparr> c_disposed = False, c_instanceId = ''A'', c_baseUrl = [],
                  c_correlationManager = manager_of 0 two_clients,
                  c_pendingRequests = [''17-k3j9x0q2m''] \<rparr>"
    by (simp add: two_clients_eval manager_of_def)
  have n0: "getPendingCount (forward (example_response None) (manager_of 0 two_clients)) = 0"
    by (simp add: two_clients_eval manager_of_def getPendingCount_def forward_def
          isResponseMessage_def example_response_def resolveRequest_def clearRequest_def
          clearTimeout_def nextTick_def Let_def)
  have n1: "getPendingCount (manager_of 1 two_clients) = 1"
    by (simp add: two_clients_eval manager_of_def getPendingCount_def)
  from untagged_envelope_only_primary_forwards[OF r u, where self = 1]
  have a: "messageHandler 1 (example_response None) two_clients = two_clients"
    using p by simp
  from untagged_envelope_only_primary_forwards[OF r u, where self = 0] p c
  have b: "messageHandler 0 (example_response None) two_clients =
           two_clients\<lparr> clients := AList.update 0
             (\<lparr> c_disposed = False, c_instanceId = ''A'', c_baseUrl = [],
                c_correlationManager = manager_of 0 two_clients,
                c_pendingRequests = [''17-k3j9x0q2m''] \<rparr>
              \<lparr> c_correlationManager := forward (example_response None) (manager_of 0 two_clients) \<rparr>)
             (clients two_clients) \<rparr>"
    by simp
  let ?w4 = "client_tick 0 (messageHandler 0 (example_response None) two_clients)"
  have r4: "page_reachable ?w4"
    by (intro p_tick p_message r)
  have p4: "primaryClient ?w4 = Some 0" "\<not> client_isDisposed 0 ?w4"
    "invoked (manager_of 0 ?w4) = [CallResolve 10 (example_response None)]"
    by (simp_all add: two_clients_eval manager_of_def messageHandler_def client_handleMessage_def
          early_return_def truthy_def client_isDisposed_def forward_def isResponseMessage_def
          example_response_def resolveRequest_def clearRequest_def clearTimeout_def nextTick_def
          client_tick_def run_ticks_def callback_of_def Let_def)
  from untagged_envelope_only_primary_forwards[OF r4 u, where self = 1]
  have a4: "messageHandler 1 (example_response None) ?w4 = ?w4"
    using p4(1,2) by simp
  have t: "getPendingCount (manager_of 0 (messageHandler 0 (example_response None) two_clients)) = 0
     \<and> getPendingCount (manager_of 1 (messageHandler 1 (example_response None) two_clients)) = 1"
    using a n1 n0 unfolding b by (simp add: manager_of_def update_conv')
  show ?thesis
    using r u p a t r4 p4(3) a4 by blast
qed

end
